theory Spec2Isabelle
  imports Main
begin

section \<open>QR factorization on a CUDA device (chainerx/cuda/cuda_device/linalg.cu)\<close>

text \<open>
  The theory embeds \<open>CudaQRKernel::Call\<close> and its local lambda \<open>qr_impl\<close>.
  Device memory and the calls made on the device are threaded through the functions as
  an explicit state; C++ exceptions are values of a sum type. The cuSOLVER primitives
  are parameters of the model: nothing is assumed about the numbers they compute.
\<close>

subsection \<open>Element kinds, modes and errors\<close>

text \<open>
  Modelled from the spec: the enumeration \<open>Dtype\<close> is declared in chainerx/dtype.h.
  The dispatch switch of \<open>Call\<close> names three of its members; every other member takes
  the \<open>default\<close> label and is one constructor here.
\<close>

datatype Dtype = kFloat16 | kFloat32 | kFloat64 | kOtherDtype

text \<open>\<open>QRMode::reduced\<close>, \<open>QRMode::complete\<close>, \<open>QRMode::r\<close>, \<open>QRMode::raw\<close>.\<close>

datatype QRMode = QRMode_reduced | QRMode_complete | QRMode_r | QRMode_raw

text \<open>
  The exits of the source that are not returns: the three exception classes it throws,
  with their messages (and, for \<open>ChainerxError\<close>, the status code appended to the
  message), and \<open>CHAINERX_NEVER_REACH()\<close>.
\<close>

datatype error =
    DimensionError string
  | DtypeError string
  | ChainerxError string int
  | NeverReach

subsection \<open>Device state\<close>

type_synonym addr = nat

text \<open>
  What the call does on the device, in program order. Pointer arguments of the vendor
  calls are recorded as the addresses of the buffers they point into, in the order of
  the source:
  \<^item> \<open>Alloc p sz\<close>: a buffer of \<open>sz\<close> elements is obtained at address \<open>p\<close>;
  \<^item> \<open>Release p\<close>: the buffer at \<open>p\<close> is given back;
  \<^item> \<open>Call_geqrf_bufferSize m n A lda\<close> (line 69);
  \<^item> \<open>Call_geqrf m n A lda tau work lwork devInfo\<close> (line 74);
  \<^item> \<open>Call_orgqr_bufferSize m n k A lda tau\<close> (line 105);
  \<^item> \<open>Call_orgqr m n k A lda tau work lwork devInfo\<close> (line 109);
  \<^item> \<open>MemcpyDeviceToHost devInfo v\<close>: the host reads \<open>v\<close> from the status cell
    (lines 77 and 111).
\<close>

datatype event =
    Alloc addr nat
  | Release addr
  | Call_geqrf_bufferSize nat nat addr nat
  | Call_geqrf nat nat addr nat addr addr nat addr
  | Call_orgqr_bufferSize nat nat nat addr nat addr
  | Call_orgqr nat nat nat addr nat addr addr nat addr
  | MemcpyDeviceToHost addr int

record device =
  next_addr :: addr
  live :: "addr list"
  trace :: "event list"

definition log_event :: "event \<Rightarrow> device \<Rightarrow> device" where
  "log_event e s = s\<lparr>trace := trace s @ [e]\<rparr>"

text \<open>A request for device memory of \<open>sz\<close> elements: a buffer at a fresh address.\<close>

definition allocate :: "nat \<Rightarrow> device \<Rightarrow> addr \<times> device" where
  "allocate sz s =
     (next_addr s,
      s\<lparr>next_addr := Suc (next_addr s),
        live := live s @ [next_addr s],
        trace := trace s @ [Alloc (next_addr s) sz]\<rparr>)"

text \<open>
  Modelled from the spec: the buffers of the arrays of a call are scoped resources,
  owned by the call and freed by it. A buffer is given back when its last handle goes
  away: at the destructor of the \<open>Array\<close> variable that holds it, or when another
  array is assigned to that variable.
\<close>

definition release :: "addr \<Rightarrow> device \<Rightarrow> device" where
  "release p s = s\<lparr>live := removeAll p (live s), trace := trace s @ [Release p]\<rparr>"

fun release_all :: "addr list \<Rightarrow> device \<Rightarrow> device" where
  "release_all [] s = s"
| "release_all (p # ps) s = release_all ps (release p s)"

text \<open>
  \<open>CheckCudaError(cudaMalloc(&devInfo, sizeof(int)))\<close>: one \<open>int\<close> of raw device
  memory. The pointer is a plain \<open>int*\<close>: no destructor is attached to it.

  The exits of the model are the returns and the \<open>throw\<close> statements of the source
  file. The CUDA runtime calls under \<open>CheckCudaError\<close> and the calls made through the
  solver handle are taken to succeed: how they fail is decided outside this file.
\<close>

definition cudaMalloc :: "device \<Rightarrow> addr \<times> device" where
  "cudaMalloc s = allocate 1 s"

subsection \<open>Arrays\<close>

text \<open>
  Modelled from the spec: the array abstraction (chainerx/array.h) is a collaborator
  of this file, used through \<open>ndim\<close>, \<open>shape\<close>, \<open>dtype\<close>, \<open>Transpose\<close>, \<open>Copy\<close>,
  \<open>At\<close>, \<open>Triu\<close>, \<open>Empty\<close> and the elementwise copy kernel. An array is a handle: its
  shape, its element kind, the device buffer it refers to, and its logical contents in
  row-major order.
\<close>

record 'a Array =
  shape :: "nat list"
  dtype :: Dtype
  data :: addr
  elems :: "'a list"

definition ndim :: "'a Array \<Rightarrow> nat" where
  "ndim a = length (shape a)"

definition ncols :: "'a Array \<Rightarrow> nat" where
  "ncols a = (case shape a of [r, c] \<Rightarrow> c | _ \<Rightarrow> 0)"

definition nrows :: "'a Array \<Rightarrow> nat" where
  "nrows a = (case shape a of [r, c] \<Rightarrow> r | _ \<Rightarrow> 0)"

text \<open>Entry \<open>(i, j)\<close> of a 2-dimensional array.\<close>

definition at2 :: "'a Array \<Rightarrow> nat \<Rightarrow> nat \<Rightarrow> 'a" where
  "at2 a i j = elems a ! (i * ncols a + j)"

text \<open>The row-major contents of the \<open>r \<times> c\<close> matrix with entries \<open>f i j\<close>.\<close>

definition tabulate2 :: "nat \<Rightarrow> nat \<Rightarrow> (nat \<Rightarrow> nat \<Rightarrow> 'a) \<Rightarrow> 'a list" where
  "tabulate2 r c f = concat (map (\<lambda>i. map (f i) [0..<c]) [0..<r])"

text \<open>
  Modelled from the spec: \<open>Empty(shape, dtype, device)\<close> allocates a buffer and leaves
  its contents as they are; \<open>uninit\<close> gives what the memory happens to hold.
\<close>

definition Empty :: "nat list \<Rightarrow> Dtype \<Rightarrow> (nat \<Rightarrow> 'a) \<Rightarrow> device \<Rightarrow> 'a Array \<times> device" where
  "Empty shp dt uninit s =
     (let (p, s') = allocate (prod_list shp) s
      in (\<lparr>shape = shp, dtype = dt, data = p, elems = map uninit [0..<prod_list shp]\<rparr>, s'))"

text \<open>
  Modelled from the spec: \<open>Transpose\<close> is a view of the same buffer with the two axes
  exchanged. The source calls it on 2-dimensional arrays only (after the rank check).
\<close>

definition Transpose :: "'a Array \<Rightarrow> 'a Array" where
  "Transpose a =
     (case shape a of
        [r, c] \<Rightarrow> a\<lparr>shape := [c, r], elems := tabulate2 c r (\<lambda>i j. at2 a j i)\<rparr>
      | _ \<Rightarrow> a)"

text \<open>Modelled from the spec: \<open>Copy\<close> gives the same contents in a buffer of its own.\<close>

definition Copy :: "'a Array \<Rightarrow> device \<Rightarrow> 'a Array \<times> device" where
  "Copy a s = (let (p, s') = allocate (prod_list (shape a)) s in (a\<lparr>data := p\<rparr>, s'))"

text \<open>
  Modelled from the spec: \<open>Slice{}\<close> selects a whole axis, \<open>Slice{start, stop}\<close> the
  indices from \<open>start\<close> up to \<open>stop\<close> (not included), both clipped to the axis.
\<close>

datatype Slice = Slice_all | Slice nat nat

fun slice_start :: "Slice \<Rightarrow> nat \<Rightarrow> nat" where
  "slice_start Slice_all d = 0"
| "slice_start (Slice start stop) d = min start d"

fun slice_len :: "Slice \<Rightarrow> nat \<Rightarrow> nat" where
  "slice_len Slice_all d = d"
| "slice_len (Slice start stop) d = min stop d - min start d"

text \<open>
  Modelled from the spec: \<open>At\<close> with one slice per axis is a view of the same buffer
  (2-dimensional arrays only, as in the source).
\<close>

definition At :: "'a Array \<Rightarrow> Slice \<Rightarrow> Slice \<Rightarrow> 'a Array" where
  "At a s0 s1 =
     (case shape a of
        [r, c] \<Rightarrow>
          a\<lparr>shape := [slice_len s0 r, slice_len s1 c],
            elems := tabulate2 (slice_len s0 r) (slice_len s1 c)
                       (\<lambda>i j. at2 a (slice_start s0 r + i) (slice_start s1 c + j))\<rparr>
      | _ \<Rightarrow> a)"

text \<open>
  Modelled from the spec: \<open>Triu(matrix, diagonal-offset)\<close> zeroes the entries below
  the given diagonal: entry \<open>(i, j)\<close> is kept when \<open>j - i \<ge> k\<close>. The result is a newly
  allocated array.
\<close>

definition triu_elems :: "('a::zero) Array \<Rightarrow> int \<Rightarrow> 'a list" where
  "triu_elems a k =
     tabulate2 (nrows a) (ncols a) (\<lambda>i j. if int j - int i < k then 0 else at2 a i j)"

definition Triu :: "('a::zero) Array \<Rightarrow> int \<Rightarrow> device \<Rightarrow> 'a Array \<times> device" where
  "Triu a k s =
     (let (p, s') = allocate (prod_list (shape a)) s
      in (a\<lparr>data := p, elems := triu_elems a k\<rparr>, s'))"

text \<open>
  Modelled from the spec: the elementwise copy kernel, called in the source as
  \<open>CallKernel<CopyKernel>(R, Q.At({Slice{0, n}, Slice{}}))\<close>, that is \<open>Q[0:n, :] = R\<close>:
  the rows of \<open>Q\<close> selected by the slice are overwritten through the view.
\<close>

definition CopyKernel_rows :: "'a Array \<Rightarrow> 'a Array \<Rightarrow> Slice \<Rightarrow> 'a Array" where
  "CopyKernel_rows src dst s0 =
     dst\<lparr>elems := tabulate2 (nrows dst) (ncols dst)
                    (\<lambda>i j. if slice_start s0 (nrows dst) \<le> i
                              \<and> i < slice_start s0 (nrows dst) + slice_len s0 (nrows dst)
                           then at2 src (i - slice_start s0 (nrows dst)) j
                           else at2 dst i j)\<rparr>"

subsection \<open>The vendor library\<close>

text \<open>
  The four cuSOLVER entry points handed to \<open>qr_impl\<close> for one element kind. Each takes
  the integer arguments of the call and the contents of the buffers it reads, and gives
  the contents it leaves in the buffers it writes; the execute entry points also give
  the value they store in the status cell.
  \<^item> \<open>geqrf_bufferSize m n A lda\<close> is the scratch size;
  \<^item> \<open>geqrf m n A lda tau lwork\<close> is \<open>(A', tau', info)\<close>;
  \<^item> \<open>orgqr_bufferSize m n k A lda tau\<close> is the scratch size;
  \<^item> \<open>orgqr m n k A lda tau lwork\<close> is \<open>(A', info)\<close>.
\<close>

record 'a cusolver =
  geqrf_bufferSize :: "nat \<Rightarrow> nat \<Rightarrow> 'a list \<Rightarrow> nat \<Rightarrow> nat"
  geqrf :: "nat \<Rightarrow> nat \<Rightarrow> 'a list \<Rightarrow> nat \<Rightarrow> 'a list \<Rightarrow> nat \<Rightarrow> 'a list \<times> 'a list \<times> int"
  orgqr_bufferSize :: "nat \<Rightarrow> nat \<Rightarrow> nat \<Rightarrow> 'a list \<Rightarrow> nat \<Rightarrow> 'a list \<Rightarrow> nat"
  orgqr :: "nat \<Rightarrow> nat \<Rightarrow> nat \<Rightarrow> 'a list \<Rightarrow> nat \<Rightarrow> 'a list \<Rightarrow> nat \<Rightarrow> 'a list \<times> int"

text \<open>
  The surroundings of a call: the single-precision entry points
  (\<open>cusolverDnSgeqrf\<close>, ...), the double-precision ones (\<open>cusolverDnDgeqrf\<close>, ...), and
  the contents of memory that has been allocated and not written.
\<close>

record 'a env =
  cusolverDnS :: "'a cusolver"
  cusolverDnD :: "'a cusolver"
  uninit :: "nat \<Rightarrow> 'a"

subsection \<open>\<open>qr_impl\<close>\<close>

text \<open>
  The lambda of lines 58 to 121. \<open>Q\<close>, \<open>R\<close> and \<open>tau\<close> are the variables of \<open>Call\<close> it
  captures by reference. Every exit lists the buffers whose last handle goes away
  there: first the lambda's own \<open>work\<close>, then those of \<open>Q\<close>, \<open>R\<close>, \<open>tau\<close> in the frame
  of \<open>Call\<close> (in reverse order of declaration) that have not been moved into the result.
  \<open>devInfo\<close> is a raw pointer and the source has no \<open>cudaFree\<close>.

  \<open>work_ptr\<close> is computed once, from the first \<open>work\<close> (line 72); line 109 passes it
  again after \<open>work\<close> has been assigned a new array (line 107).
\<close>

definition qr_impl ::
  "('a::zero) env \<Rightarrow> 'a cusolver \<Rightarrow> QRMode \<Rightarrow> Dtype \<Rightarrow> nat \<Rightarrow> nat \<Rightarrow> nat \<Rightarrow>
   'a Array \<Rightarrow> 'a Array \<Rightarrow> 'a Array \<Rightarrow> device \<Rightarrow> (error + 'a Array \<times> 'a Array) \<times> device" where
  "qr_impl env lib mode dt m n mn Q R tau s0 =
     (let r_ptr = data R;
          tau_ptr = data tau;
          (devInfo, s1) = cudaMalloc s0;
          buffersize_geqrf = geqrf_bufferSize lib m n (elems R) n;
          s2 = log_event (Call_geqrf_bufferSize m n r_ptr n) s1;
          (work, s3) = Empty [buffersize_geqrf] dt (uninit env) s2;
          work_ptr = data work;
          (r_out, tau_out, info1) = geqrf lib m n (elems R) m (elems tau) buffersize_geqrf;
          R1 = R\<lparr>elems := r_out\<rparr>;
          tau1 = tau\<lparr>elems := tau_out\<rparr>;
          s4 = log_event (Call_geqrf m n r_ptr m tau_ptr work_ptr buffersize_geqrf devInfo) s3;
          devInfo_h = info1;
          s5 = log_event (MemcpyDeviceToHost devInfo devInfo_h) s4
      in
      if devInfo_h \<noteq> 0 then
        (Inl (ChainerxError ''Unsuccessfull geqrf (QR) execution. Info = '' devInfo_h),
         release_all [data work, data tau1, data R1, data Q] s5)
      else if mode = QRMode_r then
        (let R2 = Transpose (At R1 Slice_all (Slice 0 mn));
             (R3, s6) = Triu R2 0 s5;
             s7 = release (data R2) s6
         in (Inr (Q, R3), release_all [data work, data tau1] s7))
      else if mode = QRMode_raw then
        (Inr (R1, tau1), release_all [data work, data Q] s5)
      else
        (let mc = (if mode = QRMode_complete \<and> m > n then m else mn);
             (Q1, s6) = (if mode = QRMode_complete \<and> m > n
                         then Empty [m, m] dt (uninit env) s5
                         else Empty [n, m] dt (uninit env) s5);
             s7 = release (data Q) s6;
             Q2 = CopyKernel_rows R1 Q1 (Slice 0 n);
             q_ptr = data Q2;
             buffersize_orgqr = orgqr_bufferSize lib m mc mn (elems Q2) m (elems tau1);
             s8 = log_event (Call_orgqr_bufferSize m mc mn q_ptr m tau_ptr) s7;
             (work2, s9) = Empty [buffersize_orgqr] dt (uninit env) s8;
             s10 = release (data work) s9;
             (q_out, info2) = orgqr lib m mc mn (elems Q2) m (elems tau1) buffersize_orgqr;
             Q3 = Q2\<lparr>elems := q_out\<rparr>;
             s11 = log_event
                     (Call_orgqr m mc mn q_ptr m tau_ptr work_ptr buffersize_orgqr devInfo) s10;
             devInfo_h2 = info2;
             s12 = log_event (MemcpyDeviceToHost devInfo devInfo_h2) s11
         in
         if devInfo_h2 \<noteq> 0 then
           (Inl (ChainerxError ''Unsuccessfull orgqr (QR) execution. Info = '' devInfo_h2),
            release_all [data work2, data tau1, data R1, data Q3] s12)
         else
           (let (Q4, s13) = Copy (Transpose (At Q3 (Slice 0 mc) Slice_all)) s12;
                s14 = release (data Q3) s13;
                R2 = Transpose (At R1 Slice_all (Slice 0 mc));
                (R3, s15) = Triu R2 0 s14;
                s16 = release (data R2) s15
            in (Inr (Q4, R3), release_all [data work2, data tau1] s16))))"

subsection \<open>\<open>CudaQRKernel::Call\<close>\<close>

text \<open>
  Lines 41 to 137. The rank check comes first; \<open>Q\<close>, \<open>R\<close> and \<open>tau\<close> are set up next
  (lines 54 to 56); the switch on the element kind is the last statement.
  \<open>CHAINERX_NEVER_REACH()\<close> aborts: no destructor runs.
\<close>

definition Call ::
  "('a::zero) env \<Rightarrow> 'a Array \<Rightarrow> QRMode \<Rightarrow> device \<Rightarrow> (error + 'a Array \<times> 'a Array) \<times> device" where
  "Call env a mode s0 =
     (if ndim a \<noteq> 2 then
        (Inl (DimensionError ''ChainerX QR supports only 2-dimensional arrays.''), s0)
      else
        (let m = shape a ! 0;
             n = shape a ! 1;
             mn = min m n;
             (Q, s1) = Empty [0] (dtype a) (uninit env) s0;
             (R, s2) = Copy (Transpose a) s1;
             (tau, s3) = Empty [mn] (dtype a) (uninit env) s2
         in case dtype a of
              kFloat16 \<Rightarrow>
                (Inl (DtypeError ''Half-precision (float16) is not supported by QR decomposition''),
                 release_all [data tau, data R, data Q] s3)
            | kFloat32 \<Rightarrow> qr_impl env (cusolverDnS env) mode (dtype a) m n mn Q R tau s3
            | kFloat64 \<Rightarrow> qr_impl env (cusolverDnD env) mode (dtype a) m n mn Q R tau s3
            | kOtherDtype \<Rightarrow> (Inl NeverReach, s3)))"

subsection \<open>Observations on a call\<close>

text \<open>The events a call adds to the trace of the state it started in.\<close>

definition new_events :: "device \<Rightarrow> device \<Rightarrow> event list" where
  "new_events s s' = drop (length (trace s)) (trace s')"

fun is_Alloc :: "event \<Rightarrow> bool" where
  "is_Alloc (Alloc p sz) = True"
| "is_Alloc _ = False"

definition allocations :: "event list \<Rightarrow> event list" where
  "allocations tr = filter is_Alloc tr"

fun is_Call_orgqr :: "event \<Rightarrow> bool" where
  "is_Call_orgqr (Call_orgqr m mc k q lda t w lwork d) = True"
| "is_Call_orgqr _ = False"

definition orgqr_invoked :: "event list \<Rightarrow> bool" where
  "orgqr_invoked tr = list_ex is_Call_orgqr tr"

text \<open>The triples \<open>(m, mc, k)\<close> the accumulation primitive was called with.\<close>

fun orgqr_dims :: "event list \<Rightarrow> (nat \<times> nat \<times> nat) list" where
  "orgqr_dims [] = []"
| "orgqr_dims (Call_orgqr m mc k q lda t w lwork d # es) = (m, mc, k) # orgqr_dims es"
| "orgqr_dims (e # es) = orgqr_dims es"

text \<open>The values copied from the status cell to the host, in order.\<close>

fun status_reads :: "event list \<Rightarrow> int list" where
  "status_reads [] = []"
| "status_reads (MemcpyDeviceToHost p v # es) = v # status_reads es"
| "status_reads (e # es) = status_reads es"

text \<open>The status cell a vendor execute call writes, if the event is one.\<close>

fun status_cell_of :: "event \<Rightarrow> addr option" where
  "status_cell_of (Call_geqrf m n a lda t w lwork d) = Some d"
| "status_cell_of (Call_orgqr m mc k q lda t w lwork d) = Some d"
| "status_cell_of _ = None"

fun reads_cell :: "addr \<Rightarrow> event list \<Rightarrow> bool" where
  "reads_cell d (MemcpyDeviceToHost p v # es) = (p = d)"
| "reads_cell d _ = False"

text \<open>
  Every vendor execute call in the trace is followed at once by a copy of the status
  cell it wrote to the host.
\<close>

fun readback_after_each_call :: "event list \<Rightarrow> bool" where
  "readback_after_each_call [] = True"
| "readback_after_each_call (e # es) =
     ((case status_cell_of e of None \<Rightarrow> True | Some d \<Rightarrow> reads_cell d es)
      \<and> readback_after_each_call es)"

text \<open>The status cells handed to the vendor execute calls, in order.\<close>

definition status_cells :: "event list \<Rightarrow> addr list" where
  "status_cells tr = List.map_filter status_cell_of tr"

text \<open>The scratch pointer and the scratch size handed to each generation call.\<close>

fun geqrf_scratch :: "event list \<Rightarrow> (addr \<times> nat) list" where
  "geqrf_scratch [] = []"
| "geqrf_scratch (Call_geqrf m n a lda t w lwork d # es) = (w, lwork) # geqrf_scratch es"
| "geqrf_scratch (e # es) = geqrf_scratch es"

text \<open>The scratch pointer and the scratch size handed to each accumulation call.\<close>

fun orgqr_scratch :: "event list \<Rightarrow> (addr \<times> nat) list" where
  "orgqr_scratch [] = []"
| "orgqr_scratch (Call_orgqr m mc k q lda t w lwork d # es) = (w, lwork) # orgqr_scratch es"
| "orgqr_scratch (e # es) = orgqr_scratch es"

text \<open>
  A buffer has been given back by the time the call exits: the trace has its release
  and the device no longer holds it.
\<close>

definition released_at_exit :: "addr \<Rightarrow> device \<Rightarrow> bool" where
  "released_at_exit p s' \<longleftrightarrow> Release p \<in> set (trace s') \<and> p \<notin> set (live s')"

text \<open>
  A 2-dimensional array whose entries strictly below the main diagonal are all zero.
\<close>

definition upper_triangular :: "('a::zero) Array \<Rightarrow> bool" where
  "upper_triangular a \<longleftrightarrow>
     ndim a = 2 \<and> length (elems a) = nrows a * ncols a \<and>
     (\<forall>i<nrows a. \<forall>j<ncols a. j < i \<longrightarrow> at2 a i j = 0)"

subsection \<open>A concrete device for running the model\<close>

text \<open>
  Stand-ins for the vendor entry points, with integers as elements: the generation
  stage adds 10 to every entry of the working buffer and reports \<open>i1\<close>, the accumulation
  stage adds 100 and reports \<open>i2\<close>. Fresh memory holds 77.
\<close>

definition stub_lib :: "int \<Rightarrow> int \<Rightarrow> int cusolver" where
  "stub_lib i1 i2 =
     \<lparr>geqrf_bufferSize = (\<lambda>m n A lda. 2 * n),
      geqrf = (\<lambda>m n A lda tau lwork. (map (\<lambda>x. x + 10) A, map (\<lambda>i. 2) [0..<min m n], i1)),
      orgqr_bufferSize = (\<lambda>m n k A lda tau. 3 * n),
      orgqr = (\<lambda>m n k A lda tau lwork. (map (\<lambda>x. x + 100) A, i2))\<rparr>"

definition stub_env :: "int \<Rightarrow> int \<Rightarrow> int env" where
  "stub_env i1 i2 =
     \<lparr>cusolverDnS = stub_lib i1 i2, cusolverDnD = stub_lib i1 i2, uninit = (\<lambda>_. 77)\<rparr>"

text \<open>The device before the call: the input's buffer, at address 0, is all it holds.\<close>

definition dev0 :: device where
  "dev0 = \<lparr>next_addr = 1, live = [0], trace = []\<rparr>"

text \<open>The matrix \<open>[[1, 2], [3, 4], [5, 6]]\<close> of the spec's scenario, of a given element kind.\<close>

definition A3x2 :: "Dtype \<Rightarrow> int Array" where
  "A3x2 dt = \<lparr>shape = [3, 2], dtype = dt, data = 0, elems = [1, 2, 3, 4, 5, 6]\<rparr>"

definition A2x2 :: "Dtype \<Rightarrow> int Array" where
  "A2x2 dt = \<lparr>shape = [2, 2], dtype = dt, data = 0, elems = [1, 2, 3, 4]\<rparr>"

definition A1d :: "Dtype \<Rightarrow> int Array" where
  "A1d dt = \<lparr>shape = [6], dtype = dt, data = 0, elems = [1, 2, 3, 4, 5, 6]\<rparr>"

definition A3d :: "Dtype \<Rightarrow> int Array" where
  "A3d dt = \<lparr>shape = [1, 3, 2], dtype = dt, data = 0, elems = [1, 2, 3, 4, 5, 6]\<rparr>"

section \<open>Verification\<close>

subsection \<open>Row-major tables\<close>

lemma length_tabulate2 [simp]: "length (tabulate2 r c f) = r * c"
  by (induction r) (simp_all add: tabulate2_def)

lemma tabulate2_Suc: "tabulate2 (Suc r) c f = tabulate2 r c f @ map (f r) [0..<c]"
  by (simp add: tabulate2_def)

lemma nth_tabulate2: "i < r \<Longrightarrow> j < c \<Longrightarrow> tabulate2 r c f ! (i * c + j) = f i j"
proof (induction r)
  case 0
  then show ?case by simp
next
  case (Suc r)
  show ?case
  proof (cases "i < r")
    case True
    have "i * c + j < i * c + c" using Suc.prems(2) by simp
    also have "\<dots> = Suc i * c" by simp
    also have "\<dots> \<le> r * c" using True by (intro mult_le_mono1) simp
    finally have "i * c + j < r * c" .
    then show ?thesis
      using True Suc by (simp add: tabulate2_Suc nth_append)
  next
    case False
    then have "i = r" using Suc.prems(1) by simp
    then show ?thesis
      using Suc.prems(2) by (simp add: tabulate2_Suc nth_append)
  qed
qed

subsection \<open>What the array primitives return and what they do to the device\<close>

lemma fst_allocate [simp]: "fst (allocate sz s) = next_addr s"
  by (simp add: allocate_def)

lemma snd_allocate [simp]:
  "snd (allocate sz s) =
     s\<lparr>next_addr := Suc (next_addr s), live := live s @ [next_addr s],
       trace := trace s @ [Alloc (next_addr s) sz]\<rparr>"
  by (simp add: allocate_def)

lemma fst_Empty [simp]:
  "fst (Empty shp dt u s) =
     \<lparr>shape = shp, dtype = dt, data = next_addr s, elems = map u [0..<prod_list shp]\<rparr>"
  by (simp add: Empty_def split_def Let_def)

lemma snd_Empty [simp]: "snd (Empty shp dt u s) = snd (allocate (prod_list shp) s)"
  by (simp add: Empty_def split_def Let_def)

lemma fst_Copy [simp]: "fst (Copy a s) = a\<lparr>data := next_addr s\<rparr>"
  by (simp add: Copy_def split_def Let_def)

lemma snd_Copy [simp]: "snd (Copy a s) = snd (allocate (prod_list (shape a)) s)"
  by (simp add: Copy_def split_def Let_def)

lemma fst_Triu [simp]: "fst (Triu a k s) = a\<lparr>data := next_addr s, elems := triu_elems a k\<rparr>"
  by (simp add: Triu_def split_def Let_def)

lemma snd_Triu [simp]: "snd (Triu a k s) = snd (allocate (prod_list (shape a)) s)"
  by (simp add: Triu_def split_def Let_def)

lemma fst_cudaMalloc [simp]: "fst (cudaMalloc s) = next_addr s"
  by (simp add: cudaMalloc_def)

lemma snd_cudaMalloc [simp]: "snd (cudaMalloc s) = snd (allocate 1 s)"
  by (simp add: cudaMalloc_def)

lemma data_Transpose [simp]: "data (Transpose a) = data a"
  by (simp add: Transpose_def split: list.splits)

lemma data_At [simp]: "data (At a s0 s1) = data a"
  by (simp add: At_def split: list.splits)

lemma data_CopyKernel_rows [simp]: "data (CopyKernel_rows src dst s0) = data dst"
  by (simp add: CopyKernel_rows_def)

lemma shape_Transpose: "shape a = [r, c] \<Longrightarrow> shape (Transpose a) = [c, r]"
  by (simp add: Transpose_def)

lemma shape_At: "shape a = [r, c] \<Longrightarrow> shape (At a s0 s1) = [slice_len s0 r, slice_len s1 c]"
  by (simp add: At_def)

lemma shape_CopyKernel_rows [simp]: "shape (CopyKernel_rows src dst s0) = shape dst"
  by (simp add: CopyKernel_rows_def)

lemma upper_triangular_triu:
  assumes "shape a = [r, c]"
  shows "upper_triangular (a\<lparr>data := p, elems := triu_elems a 0\<rparr>)"
  using assms
  by (simp add: upper_triangular_def triu_elems_def ndim_def nrows_def ncols_def at2_def
      nth_tabulate2)

lemma addr_offsets:
  "p + 2 = Suc (Suc p)"
  "p + 3 = Suc (Suc (Suc p))"
  "p + 4 = Suc (Suc (Suc (Suc p)))"
  "p + 5 = Suc (Suc (Suc (Suc (Suc p))))"
  "p + 6 = Suc (Suc (Suc (Suc (Suc (Suc p)))))"
  "p + 7 = Suc (Suc (Suc (Suc (Suc (Suc (Suc p))))))"
  "p + 8 = Suc (Suc (Suc (Suc (Suc (Suc (Suc (Suc p)))))))"
  "p + 9 = Suc (Suc (Suc (Suc (Suc (Suc (Suc (Suc (Suc p))))))))"
  by simp_all

subsection \<open>The exits of \<open>qr_impl\<close>\<close>

text \<open>
  One lemma for each of the five exits: the result, and the device the call leaves.
  \<open>p\<close> is the first free address on entry: the status cell is at \<open>p\<close>, the stage-2
  scratch at \<open>p + 1\<close>.
\<close>

lemma qr_impl_geqrf_fail:
  assumes "S1 = geqrf_bufferSize lib m n (elems R) n"
    and "G = geqrf lib m n (elems R) m (elems tau) S1"
    and "p = next_addr s"
    and "snd (snd G) \<noteq> 0"
  shows "qr_impl env lib mode dt m n mn Q R tau s =
     (Inl (ChainerxError ''Unsuccessfull geqrf (QR) execution. Info = '' (snd (snd G))),
      s\<lparr>next_addr := p + 2,
        live := removeAll (data Q) (removeAll (data R) (removeAll (data tau)
                  (removeAll (p + 1) (live s @ [p, p + 1])))),
        trace := trace s @
          [Alloc p 1,
           Call_geqrf_bufferSize m n (data R) n,
           Alloc (p + 1) S1,
           Call_geqrf m n (data R) m (data tau) (p + 1) S1 p,
           MemcpyDeviceToHost p (snd (snd G)),
           Release (p + 1), Release (data tau), Release (data R), Release (data Q)]\<rparr>)"
  using assms
  by (simp add: qr_impl_def Let_def split_def release_def log_event_def addr_offsets
      del: removeAll.simps removeAll_append removeAll_id)

lemma qr_impl_r:
  assumes "S1 = geqrf_bufferSize lib m n (elems R) n"
    and "G = geqrf lib m n (elems R) m (elems tau) S1"
    and "p = next_addr s"
    and "snd (snd G) = 0"
    and "R2 = Transpose (At (R\<lparr>elems := fst G\<rparr>) Slice_all (Slice 0 mn))"
  shows "qr_impl env lib QRMode_r dt m n mn Q R tau s =
     (Inr (Q, R2\<lparr>data := p + 2, elems := triu_elems R2 0\<rparr>),
      s\<lparr>next_addr := p + 3,
        live := removeAll (data tau) (removeAll (p + 1) (removeAll (data R)
                  (live s @ [p, p + 1, p + 2]))),
        trace := trace s @
          [Alloc p 1,
           Call_geqrf_bufferSize m n (data R) n,
           Alloc (p + 1) S1,
           Call_geqrf m n (data R) m (data tau) (p + 1) S1 p,
           MemcpyDeviceToHost p 0,
           Alloc (p + 2) (prod_list (shape R2)),
           Release (data R), Release (p + 1), Release (data tau)]\<rparr>)"
  using assms
  by (simp add: qr_impl_def Let_def split_def release_def log_event_def addr_offsets
      del: removeAll.simps removeAll_append removeAll_id)

lemma qr_impl_raw:
  assumes "S1 = geqrf_bufferSize lib m n (elems R) n"
    and "G = geqrf lib m n (elems R) m (elems tau) S1"
    and "p = next_addr s"
    and "snd (snd G) = 0"
  shows "qr_impl env lib QRMode_raw dt m n mn Q R tau s =
     (Inr (R\<lparr>elems := fst G\<rparr>, tau\<lparr>elems := fst (snd G)\<rparr>),
      s\<lparr>next_addr := p + 2,
        live := removeAll (data Q) (removeAll (p + 1) (live s @ [p, p + 1])),
        trace := trace s @
          [Alloc p 1,
           Call_geqrf_bufferSize m n (data R) n,
           Alloc (p + 1) S1,
           Call_geqrf m n (data R) m (data tau) (p + 1) S1 p,
           MemcpyDeviceToHost p 0,
           Release (p + 1), Release (data Q)]\<rparr>)"
  using assms
  by (simp add: qr_impl_def Let_def split_def release_def log_event_def addr_offsets
      del: removeAll.simps removeAll_append removeAll_id)

lemma qr_impl_orgqr_fail:
  assumes "S1 = geqrf_bufferSize lib m n (elems R) n"
    and "G = geqrf lib m n (elems R) m (elems tau) S1"
    and "p = next_addr s"
    and "snd (snd G) = 0"
    and "mode = QRMode_reduced \<or> mode = QRMode_complete"
    and "mc = (if mode = QRMode_complete \<and> n < m then m else mn)"
    and "qshape = (if mode = QRMode_complete \<and> n < m then [m, m] else [n, m])"
    and "Q2 = CopyKernel_rows (R\<lparr>elems := fst G\<rparr>)
                \<lparr>shape = qshape, dtype = dt, data = p + 2,
                  elems = map (uninit env) [0..<prod_list qshape]\<rparr> (Slice 0 n)"
    and "S2 = orgqr_bufferSize lib m mc mn (elems Q2) m (fst (snd G))"
    and "G2 = orgqr lib m mc mn (elems Q2) m (fst (snd G)) S2"
    and "snd G2 \<noteq> 0"
  shows "qr_impl env lib mode dt m n mn Q R tau s =
     (Inl (ChainerxError ''Unsuccessfull orgqr (QR) execution. Info = '' (snd G2)),
      s\<lparr>next_addr := p + 4,
        live := removeAll (p + 2) (removeAll (data R) (removeAll (data tau)
                  (removeAll (p + 3) (removeAll (p + 1)
                     (removeAll (data Q) (live s @ [p, p + 1, p + 2]) @ [p + 3]))))),
        trace := trace s @
          [Alloc p 1,
           Call_geqrf_bufferSize m n (data R) n,
           Alloc (p + 1) S1,
           Call_geqrf m n (data R) m (data tau) (p + 1) S1 p,
           MemcpyDeviceToHost p 0,
           Alloc (p + 2) (prod_list qshape),
           Release (data Q),
           Call_orgqr_bufferSize m mc mn (p + 2) m (data tau),
           Alloc (p + 3) S2,
           Release (p + 1),
           Call_orgqr m mc mn (p + 2) m (data tau) (p + 1) S2 p,
           MemcpyDeviceToHost p (snd G2),
           Release (p + 3), Release (data tau), Release (data R), Release (p + 2)]\<rparr>)"
proof -
  consider (square) "mode = QRMode_complete" "n < m"
    | (economy) "mode = QRMode_complete" "\<not> n < m"
    | (reduced) "mode = QRMode_reduced"
    using assms(5) by blast
  then show ?thesis
  proof cases
    case square
    with assms show ?thesis
      by (simp add: qr_impl_def Let_def split_def release_def log_event_def addr_offsets
          del: removeAll.simps removeAll_append removeAll_id)
  next
    case economy
    with assms show ?thesis
      by (simp add: qr_impl_def Let_def split_def release_def log_event_def addr_offsets
          del: removeAll.simps removeAll_append removeAll_id)
  next
    case reduced
    with assms show ?thesis
      by (simp add: qr_impl_def Let_def split_def release_def log_event_def addr_offsets
          del: removeAll.simps removeAll_append removeAll_id)
  qed
qed

lemma qr_impl_full:
  assumes "S1 = geqrf_bufferSize lib m n (elems R) n"
    and "G = geqrf lib m n (elems R) m (elems tau) S1"
    and "p = next_addr s"
    and "snd (snd G) = 0"
    and "mode = QRMode_reduced \<or> mode = QRMode_complete"
    and "mc = (if mode = QRMode_complete \<and> n < m then m else mn)"
    and "qshape = (if mode = QRMode_complete \<and> n < m then [m, m] else [n, m])"
    and "Q2 = CopyKernel_rows (R\<lparr>elems := fst G\<rparr>)
                \<lparr>shape = qshape, dtype = dt, data = p + 2,
                  elems = map (uninit env) [0..<prod_list qshape]\<rparr> (Slice 0 n)"
    and "S2 = orgqr_bufferSize lib m mc mn (elems Q2) m (fst (snd G))"
    and "G2 = orgqr lib m mc mn (elems Q2) m (fst (snd G)) S2"
    and "snd G2 = 0"
    and "Q4 = Transpose (At (Q2\<lparr>elems := fst G2\<rparr>) (Slice 0 mc) Slice_all)"
    and "R2 = Transpose (At (R\<lparr>elems := fst G\<rparr>) Slice_all (Slice 0 mc))"
  shows "qr_impl env lib mode dt m n mn Q R tau s =
     (Inr (Q4\<lparr>data := p + 4\<rparr>, R2\<lparr>data := p + 5, elems := triu_elems R2 0\<rparr>),
      s\<lparr>next_addr := p + 6,
        live := removeAll (data tau) (removeAll (p + 3) (removeAll (data R)
                  (removeAll (p + 2) (removeAll (p + 1)
                     (removeAll (data Q) (live s @ [p, p + 1, p + 2]) @ [p + 3]) @ [p + 4])
                   @ [p + 5]))),
        trace := trace s @
          [Alloc p 1,
           Call_geqrf_bufferSize m n (data R) n,
           Alloc (p + 1) S1,
           Call_geqrf m n (data R) m (data tau) (p + 1) S1 p,
           MemcpyDeviceToHost p 0,
           Alloc (p + 2) (prod_list qshape),
           Release (data Q),
           Call_orgqr_bufferSize m mc mn (p + 2) m (data tau),
           Alloc (p + 3) S2,
           Release (p + 1),
           Call_orgqr m mc mn (p + 2) m (data tau) (p + 1) S2 p,
           MemcpyDeviceToHost p 0,
           Alloc (p + 4) (prod_list (shape Q4)),
           Release (p + 2),
           Alloc (p + 5) (prod_list (shape R2)),
           Release (data R), Release (p + 3), Release (data tau)]\<rparr>)"
proof -
  consider (square) "mode = QRMode_complete" "n < m"
    | (economy) "mode = QRMode_complete" "\<not> n < m"
    | (reduced) "mode = QRMode_reduced"
    using assms(5) by blast
  then show ?thesis
  proof cases
    case square
    with assms show ?thesis
      by (simp add: qr_impl_def Let_def split_def release_def log_event_def addr_offsets
          del: removeAll.simps removeAll_append removeAll_id)
  next
    case economy
    with assms show ?thesis
      by (simp add: qr_impl_def Let_def split_def release_def log_event_def addr_offsets
          del: removeAll.simps removeAll_append removeAll_id)
  next
    case reduced
    with assms show ?thesis
      by (simp add: qr_impl_def Let_def split_def release_def log_event_def addr_offsets
          del: removeAll.simps removeAll_append removeAll_id)
  qed
qed

subsection \<open>The set-up of \<open>Call\<close>\<close>

lemma Call_dispatch:
  assumes "shape a = [m, n]" and "p = next_addr s"
    and "Q = \<lparr>shape = [0], dtype = dtype a, data = p, elems = []\<rparr>"
    and "R = (Transpose a)\<lparr>data := p + 1\<rparr>"
    and "tau = \<lparr>shape = [min m n], dtype = dtype a, data = p + 2,
                elems = map (uninit env) [0..<min m n]\<rparr>"
    and "s3 = s\<lparr>next_addr := p + 3, live := live s @ [p, p + 1, p + 2],
                trace := trace s @ [Alloc p 0, Alloc (p + 1) (n * m), Alloc (p + 2) (min m n)]\<rparr>"
  shows "Call env a mode s =
     (case dtype a of
        kFloat16 \<Rightarrow>
          (Inl (DtypeError ''Half-precision (float16) is not supported by QR decomposition''),
           release_all [p + 2, p + 1, p] s3)
      | kFloat32 \<Rightarrow> qr_impl env (cusolverDnS env) mode (dtype a) m n (min m n) Q R tau s3
      | kFloat64 \<Rightarrow> qr_impl env (cusolverDnD env) mode (dtype a) m n (min m n) Q R tau s3
      | kOtherDtype \<Rightarrow> (Inl NeverReach, s3))"
  using assms
  by (simp add: Call_def ndim_def Let_def split_def shape_Transpose addr_offsets split: Dtype.splits)


lemma Call_valid:
  assumes "shape a = [m, n]" and "dtype a = kFloat32 \<or> dtype a = kFloat64"
    and "lib = (if dtype a = kFloat32 then cusolverDnS env else cusolverDnD env)"
    and "p = next_addr s"
  shows "Call env a mode s =
     qr_impl env lib mode (dtype a) m n (min m n)
       \<lparr>shape = [0], dtype = dtype a, data = p, elems = []\<rparr>
       ((Transpose a)\<lparr>data := p + 1\<rparr>)
       \<lparr>shape = [min m n], dtype = dtype a, data = p + 2,
         elems = map (uninit env) [0..<min m n]\<rparr>
       (s\<lparr>next_addr := p + 3, live := live s @ [p, p + 1, p + 2],
          trace := trace s @ [Alloc p 0, Alloc (p + 1) (n * m), Alloc (p + 2) (min m n)]\<rparr>)"
  using assms(2,3) Call_dispatch [OF assms(1) assms(4) refl refl refl refl, of env mode]
  by auto

lemma new_events_append [simp]:
  "trace s' = trace s @ es \<Longrightarrow> new_events s s' = es"
  by (simp add: new_events_def)

subsection \<open>The exits of \<open>Call\<close> on a 2-dimensional float32 or float64 input\<close>

text \<open>
  With \<open>p\<close> the first free address on entry, the buffers of a call are: the \<open>Q\<close>
  placeholder at \<open>p\<close>, the working buffer (the transposed copy of the input) at \<open>p + 1\<close>,
  \<open>tau\<close> at \<open>p + 2\<close>, the status cell at \<open>p + 3\<close>, the stage-2 scratch at \<open>p + 4\<close>, and
  in reduced and complete mode the buffer of \<open>Q\<close> at \<open>p + 5\<close>, the second scratch at
  \<open>p + 6\<close>, the final \<open>Q\<close> at \<open>p + 7\<close> and the final \<open>R\<close> at \<open>p + 8\<close>.
\<close>

lemma Call_geqrf_fail:
  assumes "shape a = [m, n]" and "dtype a = kFloat32 \<or> dtype a = kFloat64"
    and "lib = (if dtype a = kFloat32 then cusolverDnS env else cusolverDnD env)"
    and "p = next_addr s"
    and "W = elems (Transpose a)"
    and "S1 = geqrf_bufferSize lib m n W n"
    and "G = geqrf lib m n W m (map (uninit env) [0..<min m n]) S1"
    and "snd (snd G) \<noteq> 0"
  shows "Call env a mode s =
     (Inl (ChainerxError ''Unsuccessfull geqrf (QR) execution. Info = '' (snd (snd G))),
      s\<lparr>next_addr := p + 5,
        live := removeAll p (removeAll (p + 1) (removeAll (p + 2) (removeAll (p + 4)
                  (live s @ [p, p + 1, p + 2, p + 3, p + 4])))),
        trace := trace s @
          [Alloc p 0, Alloc (p + 1) (n * m), Alloc (p + 2) (min m n),
           Alloc (p + 3) 1,
           Call_geqrf_bufferSize m n (p + 1) n,
           Alloc (p + 4) S1,
           Call_geqrf m n (p + 1) m (p + 2) (p + 4) S1 (p + 3),
           MemcpyDeviceToHost (p + 3) (snd (snd G)),
           Release (p + 4), Release (p + 2), Release (p + 1), Release p]\<rparr>)"
  unfolding Call_valid [OF assms(1-4)] assms(5-7)
  by (subst qr_impl_geqrf_fail [OF refl refl refl])
     (use assms(8) [unfolded assms(5-7)] in \<open>simp_all add: addr_offsets
        del: removeAll.simps removeAll_append removeAll_id\<close>)

lemma Call_r:
  assumes "shape a = [m, n]" and "dtype a = kFloat32 \<or> dtype a = kFloat64"
    and "lib = (if dtype a = kFloat32 then cusolverDnS env else cusolverDnD env)"
    and "p = next_addr s"
    and "W = elems (Transpose a)"
    and "S1 = geqrf_bufferSize lib m n W n"
    and "G = geqrf lib m n W m (map (uninit env) [0..<min m n]) S1"
    and "snd (snd G) = 0"
    and "R2 = Transpose (At ((Transpose a)\<lparr>data := p + 1, elems := fst G\<rparr>)
                Slice_all (Slice 0 (min m n)))"
  shows "Call env a QRMode_r s =
     (Inr (\<lparr>shape = [0], dtype = dtype a, data = p, elems = []\<rparr>,
           R2\<lparr>data := p + 5, elems := triu_elems R2 0\<rparr>),
      s\<lparr>next_addr := p + 6,
        live := removeAll (p + 2) (removeAll (p + 4) (removeAll (p + 1)
                  (live s @ [p, p + 1, p + 2, p + 3, p + 4, p + 5]))),
        trace := trace s @
          [Alloc p 0, Alloc (p + 1) (n * m), Alloc (p + 2) (min m n),
           Alloc (p + 3) 1,
           Call_geqrf_bufferSize m n (p + 1) n,
           Alloc (p + 4) S1,
           Call_geqrf m n (p + 1) m (p + 2) (p + 4) S1 (p + 3),
           MemcpyDeviceToHost (p + 3) 0,
           Alloc (p + 5) (prod_list (shape R2)),
           Release (p + 1), Release (p + 4), Release (p + 2)]\<rparr>)"
  unfolding Call_valid [OF assms(1-4)] assms(9) assms(5-7)
  by (subst qr_impl_r [OF refl refl refl _ refl])
     (use assms(8) [unfolded assms(5-7)] in \<open>simp_all add: addr_offsets
        del: removeAll.simps removeAll_append removeAll_id\<close>)

lemma Call_raw:
  assumes "shape a = [m, n]" and "dtype a = kFloat32 \<or> dtype a = kFloat64"
    and "lib = (if dtype a = kFloat32 then cusolverDnS env else cusolverDnD env)"
    and "p = next_addr s"
    and "W = elems (Transpose a)"
    and "S1 = geqrf_bufferSize lib m n W n"
    and "G = geqrf lib m n W m (map (uninit env) [0..<min m n]) S1"
    and "snd (snd G) = 0"
  shows "Call env a QRMode_raw s =
     (Inr ((Transpose a)\<lparr>data := p + 1, elems := fst G\<rparr>,
           \<lparr>shape = [min m n], dtype = dtype a, data = p + 2, elems = fst (snd G)\<rparr>),
      s\<lparr>next_addr := p + 5,
        live := removeAll p (removeAll (p + 4) (live s @ [p, p + 1, p + 2, p + 3, p + 4])),
        trace := trace s @
          [Alloc p 0, Alloc (p + 1) (n * m), Alloc (p + 2) (min m n),
           Alloc (p + 3) 1,
           Call_geqrf_bufferSize m n (p + 1) n,
           Alloc (p + 4) S1,
           Call_geqrf m n (p + 1) m (p + 2) (p + 4) S1 (p + 3),
           MemcpyDeviceToHost (p + 3) 0,
           Release (p + 4), Release p]\<rparr>)"
  unfolding Call_valid [OF assms(1-4)] assms(5-7)
  by (subst qr_impl_raw [OF refl refl refl])
     (use assms(8) [unfolded assms(5-7)] in \<open>simp_all add: addr_offsets
        del: removeAll.simps removeAll_append removeAll_id\<close>)

lemma Call_orgqr_fail:
  assumes "shape a = [m, n]" and "dtype a = kFloat32 \<or> dtype a = kFloat64"
    and "lib = (if dtype a = kFloat32 then cusolverDnS env else cusolverDnD env)"
    and "p = next_addr s"
    and "W = elems (Transpose a)"
    and "S1 = geqrf_bufferSize lib m n W n"
    and "G = geqrf lib m n W m (map (uninit env) [0..<min m n]) S1"
    and "snd (snd G) = 0"
    and "mode = QRMode_reduced \<or> mode = QRMode_complete"
    and "mc = (if mode = QRMode_complete \<and> n < m then m else min m n)"
    and "qshape = (if mode = QRMode_complete \<and> n < m then [m, m] else [n, m])"
    and "Q2 = CopyKernel_rows ((Transpose a)\<lparr>data := p + 1, elems := fst G\<rparr>)
                \<lparr>shape = qshape, dtype = dtype a, data = p + 5,
                  elems = map (uninit env) [0..<prod_list qshape]\<rparr> (Slice 0 n)"
    and "S2 = orgqr_bufferSize lib m mc (min m n) (elems Q2) m (fst (snd G))"
    and "G2 = orgqr lib m mc (min m n) (elems Q2) m (fst (snd G)) S2"
    and "snd G2 \<noteq> 0"
  shows "Call env a mode s =
     (Inl (ChainerxError ''Unsuccessfull orgqr (QR) execution. Info = '' (snd G2)),
      s\<lparr>next_addr := p + 7,
        live := removeAll (p + 5) (removeAll (p + 1) (removeAll (p + 2)
                  (removeAll (p + 6) (removeAll (p + 4)
                     (removeAll p (live s @ [p, p + 1, p + 2, p + 3, p + 4, p + 5])
                      @ [p + 6]))))),
        trace := trace s @
          [Alloc p 0, Alloc (p + 1) (n * m), Alloc (p + 2) (min m n),
           Alloc (p + 3) 1,
           Call_geqrf_bufferSize m n (p + 1) n,
           Alloc (p + 4) S1,
           Call_geqrf m n (p + 1) m (p + 2) (p + 4) S1 (p + 3),
           MemcpyDeviceToHost (p + 3) 0,
           Alloc (p + 5) (prod_list qshape),
           Release p,
           Call_orgqr_bufferSize m mc (min m n) (p + 5) m (p + 2),
           Alloc (p + 6) S2,
           Release (p + 4),
           Call_orgqr m mc (min m n) (p + 5) m (p + 2) (p + 4) S2 (p + 3),
           MemcpyDeviceToHost (p + 3) (snd G2),
           Release (p + 6), Release (p + 2), Release (p + 1), Release (p + 5)]\<rparr>)"
proof -
  note defs = assms(14) assms(13) assms(12) assms(11) assms(10) assms(7) assms(6) assms(5)
  note h8 = assms(8) [unfolded defs]
  note h15 = assms(15) [unfolded defs]
  consider (square) "mode = QRMode_complete" "n < m"
    | (economy) "mode = QRMode_complete" "\<not> n < m"
    | (reduced) "mode = QRMode_reduced"
    using assms(9) by blast
  then show ?thesis
  proof cases
    case square
    show ?thesis
      unfolding Call_valid [OF assms(1-4)] defs
      by (subst qr_impl_orgqr_fail [OF refl refl refl _ assms(9) refl refl refl refl refl])
         (use h8 h15 square in \<open>simp_all add: addr_offsets
            del: removeAll.simps removeAll_append removeAll_id\<close>)
  next
    case economy
    show ?thesis
      unfolding Call_valid [OF assms(1-4)] defs
      by (subst qr_impl_orgqr_fail [OF refl refl refl _ assms(9) refl refl refl refl refl])
         (use h8 h15 economy in \<open>simp_all add: addr_offsets
            del: removeAll.simps removeAll_append removeAll_id\<close>)
  next
    case reduced
    show ?thesis
      unfolding Call_valid [OF assms(1-4)] defs
      by (subst qr_impl_orgqr_fail [OF refl refl refl _ assms(9) refl refl refl refl refl])
         (use h8 h15 reduced in \<open>simp_all add: addr_offsets
            del: removeAll.simps removeAll_append removeAll_id\<close>)
  qed
qed

lemma Call_full:
  assumes "shape a = [m, n]" and "dtype a = kFloat32 \<or> dtype a = kFloat64"
    and "lib = (if dtype a = kFloat32 then cusolverDnS env else cusolverDnD env)"
    and "p = next_addr s"
    and "W = elems (Transpose a)"
    and "S1 = geqrf_bufferSize lib m n W n"
    and "G = geqrf lib m n W m (map (uninit env) [0..<min m n]) S1"
    and "snd (snd G) = 0"
    and "mode = QRMode_reduced \<or> mode = QRMode_complete"
    and "mc = (if mode = QRMode_complete \<and> n < m then m else min m n)"
    and "qshape = (if mode = QRMode_complete \<and> n < m then [m, m] else [n, m])"
    and "Q2 = CopyKernel_rows ((Transpose a)\<lparr>data := p + 1, elems := fst G\<rparr>)
                \<lparr>shape = qshape, dtype = dtype a, data = p + 5,
                  elems = map (uninit env) [0..<prod_list qshape]\<rparr> (Slice 0 n)"
    and "S2 = orgqr_bufferSize lib m mc (min m n) (elems Q2) m (fst (snd G))"
    and "G2 = orgqr lib m mc (min m n) (elems Q2) m (fst (snd G)) S2"
    and "snd G2 = 0"
    and "Q4 = Transpose (At (Q2\<lparr>elems := fst G2\<rparr>) (Slice 0 mc) Slice_all)"
    and "R2 = Transpose (At ((Transpose a)\<lparr>data := p + 1, elems := fst G\<rparr>)
                Slice_all (Slice 0 mc))"
  shows "Call env a mode s =
     (Inr (Q4\<lparr>data := p + 7\<rparr>, R2\<lparr>data := p + 8, elems := triu_elems R2 0\<rparr>),
      s\<lparr>next_addr := p + 9,
        live := removeAll (p + 2) (removeAll (p + 6) (removeAll (p + 1)
                  (removeAll (p + 5) (removeAll (p + 4)
                     (removeAll p (live s @ [p, p + 1, p + 2, p + 3, p + 4, p + 5])
                      @ [p + 6]) @ [p + 7]) @ [p + 8]))),
        trace := trace s @
          [Alloc p 0, Alloc (p + 1) (n * m), Alloc (p + 2) (min m n),
           Alloc (p + 3) 1,
           Call_geqrf_bufferSize m n (p + 1) n,
           Alloc (p + 4) S1,
           Call_geqrf m n (p + 1) m (p + 2) (p + 4) S1 (p + 3),
           MemcpyDeviceToHost (p + 3) 0,
           Alloc (p + 5) (prod_list qshape),
           Release p,
           Call_orgqr_bufferSize m mc (min m n) (p + 5) m (p + 2),
           Alloc (p + 6) S2,
           Release (p + 4),
           Call_orgqr m mc (min m n) (p + 5) m (p + 2) (p + 4) S2 (p + 3),
           MemcpyDeviceToHost (p + 3) 0,
           Alloc (p + 7) (prod_list (shape Q4)),
           Release (p + 5),
           Alloc (p + 8) (prod_list (shape R2)),
           Release (p + 1), Release (p + 6), Release (p + 2)]\<rparr>)"
proof -
  note defs = assms(17) assms(16) assms(14) assms(13) assms(12) assms(11) assms(10) assms(7) assms(6) assms(5)
  note h8 = assms(8) [unfolded defs]
  note h15 = assms(15) [unfolded defs]
  consider (square) "mode = QRMode_complete" "n < m"
    | (economy) "mode = QRMode_complete" "\<not> n < m"
    | (reduced) "mode = QRMode_reduced"
    using assms(9) by blast
  then show ?thesis
  proof cases
    case square
    show ?thesis
      unfolding Call_valid [OF assms(1-4)] defs
      by (subst qr_impl_full [OF refl refl refl _ assms(9) refl refl refl refl refl _ refl refl])
         (use h8 h15 square in \<open>simp_all add: addr_offsets
            del: removeAll.simps removeAll_append removeAll_id\<close>)
  next
    case economy
    show ?thesis
      unfolding Call_valid [OF assms(1-4)] defs
      by (subst qr_impl_full [OF refl refl refl _ assms(9) refl refl refl refl refl _ refl refl])
         (use h8 h15 economy in \<open>simp_all add: addr_offsets
            del: removeAll.simps removeAll_append removeAll_id\<close>)
  next
    case reduced
    show ?thesis
      unfolding Call_valid [OF assms(1-4)] defs
      by (subst qr_impl_full [OF refl refl refl _ assms(9) refl refl refl refl refl _ refl refl])
         (use h8 h15 reduced in \<open>simp_all add: addr_offsets
            del: removeAll.simps removeAll_append removeAll_id\<close>)
  qed
qed

subsection \<open>When \<open>Call\<close> returns, both stages have reported success\<close>

lemma Call_Inr_geqrf_ok:
  assumes "shape a = [m, n]" and "dtype a = kFloat32 \<or> dtype a = kFloat64"
    and "lib = (if dtype a = kFloat32 then cusolverDnS env else cusolverDnD env)"
    and "W = elems (Transpose a)"
    and "S1 = geqrf_bufferSize lib m n W n"
    and "G = geqrf lib m n W m (map (uninit env) [0..<min m n]) S1"
    and "fst (Call env a mode s) = Inr (X, Y)"
  shows "snd (snd G) = 0"
proof (rule ccontr)
  assume "snd (snd G) \<noteq> 0"
  from Call_geqrf_fail [OF assms(1-3) refl assms(4-6) this, where s = s and mode = mode] assms(7)
  show False by simp
qed

lemma Call_Inr_orgqr_ok:
  assumes "shape a = [m, n]" and "dtype a = kFloat32 \<or> dtype a = kFloat64"
    and "lib = (if dtype a = kFloat32 then cusolverDnS env else cusolverDnD env)"
    and "p = next_addr s"
    and "W = elems (Transpose a)"
    and "S1 = geqrf_bufferSize lib m n W n"
    and "G = geqrf lib m n W m (map (uninit env) [0..<min m n]) S1"
    and "fst (Call env a mode s) = Inr (X, Y)"
    and "mode = QRMode_reduced \<or> mode = QRMode_complete"
    and "mc = (if mode = QRMode_complete \<and> n < m then m else min m n)"
    and "qshape = (if mode = QRMode_complete \<and> n < m then [m, m] else [n, m])"
    and "Q2 = CopyKernel_rows ((Transpose a)\<lparr>data := p + 1, elems := fst G\<rparr>)
                \<lparr>shape = qshape, dtype = dtype a, data = p + 5,
                  elems = map (uninit env) [0..<prod_list qshape]\<rparr> (Slice 0 n)"
    and "S2 = orgqr_bufferSize lib m mc (min m n) (elems Q2) m (fst (snd G))"
    and "G2 = orgqr lib m mc (min m n) (elems Q2) m (fst (snd G)) S2"
  shows "snd G2 = 0"
proof (rule ccontr)
  assume bad: "snd G2 \<noteq> 0"
  have ok: "snd (snd G) = 0"
    by (rule Call_Inr_geqrf_ok [OF assms(1-3) assms(5-8)])
  from Call_orgqr_fail [OF assms(1-7) ok assms(9-14) bad] assms(8)
  show False by simp
qed

subsection \<open>Running the model on the concrete device\<close>

lemma stub_lib_simps [simp]:
  "geqrf_bufferSize (stub_lib i1 i2) m n A lda = 2 * n"
  "geqrf (stub_lib i1 i2) m n A lda tau lwork
     = (map (\<lambda>x. x + 10) A, map (\<lambda>i. 2) [0..<min m n], i1)"
  "orgqr_bufferSize (stub_lib i1 i2) m n k A lda tau = 3 * n"
  "orgqr (stub_lib i1 i2) m n k A lda tau lwork = (map (\<lambda>x. x + 100) A, i2)"
  by (simp_all add: stub_lib_def)

lemma stub_env_simps [simp]:
  "cusolverDnS (stub_env i1 i2) = stub_lib i1 i2"
  "cusolverDnD (stub_env i1 i2) = stub_lib i1 i2"
  "uninit (stub_env i1 i2) = (\<lambda>_. 77)"
  by (simp_all add: stub_env_def)

lemma upt_2: "[0..<2] = [0, 1]"
  by (simp add: upt_rec)

lemma upt_3: "[0..<3] = [0, 1, 2]"
  by (simp add: upt_rec)


lemma concrete_inputs:
  "shape (A3x2 dt) = [3, 2]" "dtype (A3x2 dt) = dt"
  "shape (A2x2 dt) = [2, 2]" "dtype (A2x2 dt) = dt"
  "1 = next_addr dev0"
  by (simp_all add: A3x2_def A2x2_def dev0_def)

lemma dev0_simps:
  "next_addr dev0 = 1" "live dev0 = [0]" "trace dev0 = []"
  by (simp_all add: dev0_def)

lemma stub_lib_dispatch:
  "stub_lib i1 i2 = (if dt = kFloat32 then cusolverDnS (stub_env i1 i2)
                     else cusolverDnD (stub_env i1 i2))"
  by simp

lemmas eval_arrays =
  Transpose_def At_def CopyKernel_rows_def tabulate2_def at2_def ncols_def nrows_def
  triu_elems_def upt_2 upt_3 A3x2_def A2x2_def dev0_def

lemma run_reduced:
  "Call (stub_env 0 0) (A3x2 kFloat32) QRMode_reduced dev0 =
     (Inr (\<lparr>shape = [3, 2], dtype = kFloat32, data = 8, elems = [111, 112, 113, 114, 115, 116]\<rparr>,
           \<lparr>shape = [2, 2], dtype = kFloat32, data = 9, elems = [11, 12, 0, 14]\<rparr>),
      \<lparr>next_addr = 10, live = [0, 4, 8, 9],
        trace =
          [Alloc 1 0, Alloc 2 6, Alloc 3 2, Alloc 4 1,
           Call_geqrf_bufferSize 3 2 2 2, Alloc 5 4,
           Call_geqrf 3 2 2 3 3 5 4 4, MemcpyDeviceToHost 4 0, Alloc 6 6,
           Release 1, Call_orgqr_bufferSize 3 2 2 6 3 3, Alloc 7 6, Release 5,
           Call_orgqr 3 2 2 6 3 3 5 6 4, MemcpyDeviceToHost 4 0, Alloc 8 6,
           Release 6, Alloc 9 4, Release 2, Release 7, Release 3]\<rparr>)"
  apply (subst Call_full [OF concrete_inputs(1) _ stub_lib_dispatch concrete_inputs(5)
        refl refl refl _ _ refl refl refl refl refl _ refl refl])
      apply (simp_all add: concrete_inputs)
  apply (simp add: eval_arrays)
  done

lemma run_complete:
  "Call (stub_env 0 0) (A3x2 kFloat64) QRMode_complete dev0 =
     (Inr (\<lparr>shape = [3, 3], dtype = kFloat64, data = 8,
             elems = [111, 112, 177, 113, 114, 177, 115, 116, 177]\<rparr>,
           \<lparr>shape = [3, 2], dtype = kFloat64, data = 9, elems = [11, 12, 0, 14, 0, 0]\<rparr>),
      \<lparr>next_addr = 10, live = [0, 4, 8, 9],
        trace =
          [Alloc 1 0, Alloc 2 6, Alloc 3 2, Alloc 4 1,
           Call_geqrf_bufferSize 3 2 2 2, Alloc 5 4,
           Call_geqrf 3 2 2 3 3 5 4 4, MemcpyDeviceToHost 4 0, Alloc 6 9,
           Release 1, Call_orgqr_bufferSize 3 3 2 6 3 3, Alloc 7 9, Release 5,
           Call_orgqr 3 3 2 6 3 3 5 9 4, MemcpyDeviceToHost 4 0, Alloc 8 9,
           Release 6, Alloc 9 6, Release 2, Release 7, Release 3]\<rparr>)"
  apply (subst Call_full [OF concrete_inputs(1) _ stub_lib_dispatch concrete_inputs(5)
        refl refl refl _ _ refl refl refl refl refl _ refl refl])
      apply (simp_all add: concrete_inputs)
  apply (simp add: eval_arrays)
  done

lemma run_square:
  "Call (stub_env 0 0) (A2x2 kFloat32) QRMode_complete dev0 =
     (Inr (\<lparr>shape = [2, 2], dtype = kFloat32, data = 8, elems = [111, 112, 113, 114]\<rparr>,
           \<lparr>shape = [2, 2], dtype = kFloat32, data = 9, elems = [11, 12, 0, 14]\<rparr>),
      \<lparr>next_addr = 10, live = [0, 4, 8, 9],
        trace =
          [Alloc 1 0, Alloc 2 4, Alloc 3 2, Alloc 4 1,
           Call_geqrf_bufferSize 2 2 2 2, Alloc 5 4,
           Call_geqrf 2 2 2 2 3 5 4 4, MemcpyDeviceToHost 4 0, Alloc 6 4,
           Release 1, Call_orgqr_bufferSize 2 2 2 6 2 3, Alloc 7 6, Release 5,
           Call_orgqr 2 2 2 6 2 3 5 6 4, MemcpyDeviceToHost 4 0, Alloc 8 4,
           Release 6, Alloc 9 4, Release 2, Release 7, Release 3]\<rparr>)"
  apply (subst Call_full [OF concrete_inputs(3) _ stub_lib_dispatch concrete_inputs(5)
        refl refl refl _ _ refl refl refl refl refl _ refl refl])
      apply (simp_all add: concrete_inputs)
  apply (simp add: eval_arrays)
  done

lemma run_r:
  "Call (stub_env 0 0) (A3x2 kFloat32) QRMode_r dev0 =
     (Inr (\<lparr>shape = [0], dtype = kFloat32, data = 1, elems = []\<rparr>,
           \<lparr>shape = [2, 2], dtype = kFloat32, data = 6, elems = [11, 12, 0, 14]\<rparr>),
      \<lparr>next_addr = 7, live = [0, 1, 4, 6],
        trace =
          [Alloc 1 0, Alloc 2 6, Alloc 3 2, Alloc 4 1,
           Call_geqrf_bufferSize 3 2 2 2, Alloc 5 4,
           Call_geqrf 3 2 2 3 3 5 4 4, MemcpyDeviceToHost 4 0, Alloc 6 4,
           Release 2, Release 5, Release 3]\<rparr>)"
  apply (subst Call_r [OF concrete_inputs(1) _ stub_lib_dispatch concrete_inputs(5)
        refl refl refl _ refl])
    apply (simp_all add: concrete_inputs)
  apply (simp add: eval_arrays)
  done

lemma run_raw:
  "Call (stub_env 0 0) (A3x2 kFloat64) QRMode_raw dev0 =
     (Inr (\<lparr>shape = [2, 3], dtype = kFloat64, data = 2, elems = [11, 13, 15, 12, 14, 16]\<rparr>,
           \<lparr>shape = [2], dtype = kFloat64, data = 3, elems = [2, 2]\<rparr>),
      \<lparr>next_addr = 6, live = [0, 2, 3, 4],
        trace =
          [Alloc 1 0, Alloc 2 6, Alloc 3 2, Alloc 4 1,
           Call_geqrf_bufferSize 3 2 2 2, Alloc 5 4,
           Call_geqrf 3 2 2 3 3 5 4 4, MemcpyDeviceToHost 4 0, Release 5,
           Release 1]\<rparr>)"
  apply (subst Call_raw [OF concrete_inputs(1) _ stub_lib_dispatch concrete_inputs(5)
        refl refl refl])
    apply (simp_all add: concrete_inputs)
  apply (simp add: eval_arrays)
  done

lemma run_geqrf_fail:
  "Call (stub_env 3 0) (A3x2 kFloat32) QRMode_reduced dev0 =
     (Inl (ChainerxError ''Unsuccessfull geqrf (QR) execution. Info = '' 3),
      \<lparr>next_addr = 6, live = [0, 4],
        trace =
          [Alloc 1 0, Alloc 2 6, Alloc 3 2, Alloc 4 1,
           Call_geqrf_bufferSize 3 2 2 2, Alloc 5 4,
           Call_geqrf 3 2 2 3 3 5 4 4, MemcpyDeviceToHost 4 3, Release 5,
           Release 3, Release 2, Release 1]\<rparr>)"
  apply (subst Call_geqrf_fail [OF concrete_inputs(1) _ stub_lib_dispatch concrete_inputs(5)
        refl refl refl])
    apply (simp_all add: concrete_inputs)
  apply (simp add: eval_arrays)
  done

lemma run_orgqr_fail:
  "Call (stub_env 0 (- 2)) (A3x2 kFloat64) QRMode_complete dev0 =
     (Inl (ChainerxError ''Unsuccessfull orgqr (QR) execution. Info = '' (- 2)),
      \<lparr>next_addr = 8, live = [0, 4],
        trace =
          [Alloc 1 0, Alloc 2 6, Alloc 3 2, Alloc 4 1,
           Call_geqrf_bufferSize 3 2 2 2, Alloc 5 4,
           Call_geqrf 3 2 2 3 3 5 4 4, MemcpyDeviceToHost 4 0, Alloc 6 9,
           Release 1, Call_orgqr_bufferSize 3 3 2 6 3 3, Alloc 7 9, Release 5,
           Call_orgqr 3 3 2 6 3 3 5 9 4, MemcpyDeviceToHost 4 (- 2), Release 7,
           Release 3, Release 2, Release 6]\<rparr>)"
  apply (subst Call_orgqr_fail [OF concrete_inputs(1) _ stub_lib_dispatch concrete_inputs(5)
        refl refl refl _ _ refl refl refl refl refl])
     apply (simp_all add: concrete_inputs)
  apply (simp add: eval_arrays)
  done

subsection \<open>Rejection of inputs that are not 2-dimensional\<close>

text \<open>
  C8: for every input whose rank is not 2, the QR operation raises the shape error
  (\<open>DimensionError\<close>) and performs no device allocation before raising: the device is
  left exactly as it was, so the call has added no event, and no \<open>Alloc\<close> in particular.
\<close>

theorem Call_rank_not_2:
  "ndim a \<noteq> 2 \<Longrightarrow>
     fst (Call env a mode s)
       = Inl (DimensionError ''ChainerX QR supports only 2-dimensional arrays.'')
     \<and> snd (Call env a mode s) = s
     \<and> allocations (new_events s (snd (Call env a mode s))) = []"
  by (simp add: Call_def new_events_def allocations_def)

theorem Call_rank_not_2_witness:
  "ndim (A1d kFloat32) \<noteq> 2
   \<and> fst (Call (stub_env 0 0) (A1d kFloat32) QRMode_reduced dev0)
       = Inl (DimensionError ''ChainerX QR supports only 2-dimensional arrays.'')
   \<and> snd (Call (stub_env 0 0) (A1d kFloat32) QRMode_reduced dev0) = dev0
   \<and> allocations (new_events dev0 (snd (Call (stub_env 0 0) (A1d kFloat32) QRMode_reduced dev0)))
       = []
   \<and> ndim (A3d kFloat64) \<noteq> 2
   \<and> fst (Call (stub_env 0 0) (A3d kFloat64) QRMode_raw dev0)
       = Inl (DimensionError ''ChainerX QR supports only 2-dimensional arrays.'')
   \<and> snd (Call (stub_env 0 0) (A3d kFloat64) QRMode_raw dev0) = dev0"
proof -
  have r1: "ndim (A1d kFloat32) \<noteq> 2" by (simp add: ndim_def A1d_def)
  have r3: "ndim (A3d kFloat64) \<noteq> 2" by (simp add: ndim_def A3d_def)
  show ?thesis
    using r1 r3
      Call_rank_not_2 [OF r1, of "stub_env 0 0" QRMode_reduced dev0]
      Call_rank_not_2 [OF r3, of "stub_env 0 0" QRMode_raw dev0]
    by blast
qed

subsection \<open>Rejection of half-precision inputs\<close>

text \<open>
  C2, as stated, fails: a 2-dimensional float16 input does raise \<open>DtypeError\<close>, but
  only at the dispatch switch, the last statement of \<open>Call\<close>. For the 3-by-2 input of
  the spec's scenario three allocations have been made by then: the \<open>Q\<close> placeholder
  (0 elements), the transposed copy of the input (6 elements) and \<open>tau\<close> (2 elements).
\<close>

theorem float16_allocates_before_raising:
  "fst (Call (stub_env 0 0) (A3x2 kFloat16) QRMode_reduced dev0)
     = Inl (DtypeError ''Half-precision (float16) is not supported by QR decomposition'')
   \<and> allocations (new_events dev0 (snd (Call (stub_env 0 0) (A3x2 kFloat16) QRMode_reduced dev0)))
     = [Alloc 1 0, Alloc 2 6, Alloc 3 2]"
proof -
  have sh: "shape (A3x2 kFloat16) = [3, 2]" and dt: "dtype (A3x2 kFloat16) = kFloat16"
    by (simp_all add: A3x2_def)
  have p: "1 = next_addr dev0"
    by (simp add: dev0_def)
  show ?thesis
    using dt Call_dispatch [OF sh p refl refl refl refl, of "stub_env 0 0" QRMode_reduced]
    by (simp add: release_def allocations_def del: removeAll.simps removeAll_append removeAll_id)
qed

text \<open>
  C2, amended: for every 2-dimensional float16 input the QR operation raises
  \<open>DtypeError\<close>. What the call has done on the device by then is exactly this: it has
  allocated the \<open>Q\<close> placeholder (0 elements), the transposed copy of the input
  (\<open>n * m\<close> elements) and \<open>tau\<close> (\<open>min m n\<close> elements), and it releases the three as the
  error propagates. The status cell and the scratch buffers are not allocated, and no
  vendor primitive is called.
\<close>

theorem Call_float16:
  assumes "shape a = [m, n]" and "dtype a = kFloat16" and "p = next_addr s"
  shows "fst (Call env a mode s)
           = Inl (DtypeError ''Half-precision (float16) is not supported by QR decomposition'')
         \<and> new_events s (snd (Call env a mode s))
           = [Alloc p 0, Alloc (p + 1) (n * m), Alloc (p + 2) (min m n),
              Release (p + 2), Release (p + 1), Release p]"
  using assms(2) Call_dispatch [OF assms(1) assms(3) refl refl refl refl, of env mode]
  by (simp add: release_def del: removeAll.simps removeAll_append removeAll_id)

theorem Call_float16_witness:
  "shape (A3x2 kFloat16) = [3, 2] \<and> dtype (A3x2 kFloat16) = kFloat16 \<and> 1 = next_addr dev0
   \<and> fst (Call (stub_env 0 0) (A3x2 kFloat16) QRMode_complete dev0)
       = Inl (DtypeError ''Half-precision (float16) is not supported by QR decomposition'')
   \<and> new_events dev0 (snd (Call (stub_env 0 0) (A3x2 kFloat16) QRMode_complete dev0))
       = [Alloc 1 0, Alloc 2 6, Alloc 3 2, Release 3, Release 2, Release 1]"
proof -
  have sh: "shape (A3x2 kFloat16) = [3, 2]" and dt: "dtype (A3x2 kFloat16) = kFloat16"
    by (simp_all add: A3x2_def)
  have p: "1 = next_addr dev0"
    by (simp add: dev0_def)
  show ?thesis
    using sh dt p Call_float16 [OF sh dt p, of "stub_env 0 0" QRMode_complete]
    by simp
qed

subsection \<open>Shapes of the factors\<close>

lemma shape_working_buffer:
  "shape a = [m, n] \<Longrightarrow> shape ((Transpose a)\<lparr>data := q, elems := es\<rparr>) = [n, m]"
  by (simp add: shape_Transpose)

lemma shape_R_slice:
  assumes "shape a = [m, n]" and "k \<le> m"
  shows "shape (Transpose (At ((Transpose a)\<lparr>data := q, elems := es\<rparr>) Slice_all (Slice 0 k)))
           = [k, n]"
  using assms
  by (simp add: shape_Transpose [OF shape_At [OF shape_working_buffer]])

lemma shape_Q_slice:
  assumes "shape Q2 = [r, c]" and "k \<le> r"
  shows "shape (Transpose (At (Q2\<lparr>elems := es\<rparr>) (Slice 0 k) Slice_all)) = [c, k]"
proof -
  have "shape (Q2\<lparr>elems := es\<rparr>) = [r, c]"
    using assms(1) by simp
  from shape_Transpose [OF shape_At [OF this]] assms(2) show ?thesis
    by simp
qed

text \<open>
  C7: for every valid \<open>m \<times> n\<close> input on which the call returns: in reduced mode \<open>Q\<close>
  has shape \<open>(m, min m n)\<close> and \<open>R\<close> has shape \<open>(min m n, n)\<close>; in complete mode with
  \<open>m > n\<close> the returned \<open>Q\<close> is square, of shape \<open>(m, m)\<close>; in complete mode with
  \<open>m = n\<close> the economy branch is taken (the accumulation primitive is called once, with
  \<open>mc = min m n\<close>) and the returned \<open>Q\<close> is still \<open>m \<times> m\<close>.
\<close>

theorem Call_shapes:
  assumes sh: "shape a = [m, n]" and dt: "dtype a = kFloat32 \<or> dtype a = kFloat64"
    and ret: "fst (Call env a mode s) = Inr (Q, R)"
  shows "(mode = QRMode_reduced \<longrightarrow> shape Q = [m, min m n] \<and> shape R = [min m n, n])
       \<and> (mode = QRMode_complete \<and> n < m \<longrightarrow> shape Q = [m, m])
       \<and> (mode = QRMode_complete \<and> m = n \<longrightarrow>
            shape Q = [m, m]
            \<and> orgqr_dims (new_events s (snd (Call env a mode s))) = [(m, min m n, min m n)])"
proof -
  define lib where "lib = (if dtype a = kFloat32 then cusolverDnS env else cusolverDnD env)"
  define p where "p = next_addr s"
  define W where "W = elems (Transpose a)"
  define S1 where "S1 = geqrf_bufferSize lib m n W n"
  define G where "G = geqrf lib m n W m (map (uninit env) [0..<min m n]) S1"
  define mc where "mc = (if mode = QRMode_complete \<and> n < m then m else min m n)"
  define qshape where "qshape = (if mode = QRMode_complete \<and> n < m then [m, m] else [n, m])"
  define Q2 where "Q2 = CopyKernel_rows ((Transpose a)\<lparr>data := p + 1, elems := fst G\<rparr>)
                \<lparr>shape = qshape, dtype = dtype a, data = p + 5,
                  elems = map (uninit env) [0..<prod_list qshape]\<rparr> (Slice 0 n)"
  define S2 where "S2 = orgqr_bufferSize lib m mc (min m n) (elems Q2) m (fst (snd G))"
  define G2 where "G2 = orgqr lib m mc (min m n) (elems Q2) m (fst (snd G)) S2"
  define Q4 where "Q4 = Transpose (At (Q2\<lparr>elems := fst G2\<rparr>) (Slice 0 mc) Slice_all)"
  define R2 where "R2 = Transpose (At ((Transpose a)\<lparr>data := p + 1, elems := fst G\<rparr>)
                Slice_all (Slice 0 mc))"
  have ok1: "snd (snd G) = 0"
    by (rule Call_Inr_geqrf_ok [OF sh dt lib_def W_def S1_def G_def ret])
  have shQ2: "shape Q2 = qshape"
    by (simp add: Q2_def)
  have full: "shape Q = [hd (tl qshape), mc] \<and> shape R = [mc, n]
              \<and> orgqr_dims (new_events s (snd (Call env a mode s))) = [(m, mc, min m n)]"
    if md: "mode = QRMode_reduced \<or> mode = QRMode_complete"
  proof -
    have ok2: "snd G2 = 0"
      by (rule Call_Inr_orgqr_ok [OF sh dt lib_def p_def W_def S1_def G_def ret md mc_def
            qshape_def Q2_def S2_def G2_def])
    note eq = Call_full [OF sh dt lib_def p_def W_def S1_def G_def ok1 md mc_def
            qshape_def Q2_def S2_def G2_def ok2 Q4_def R2_def]
    have le: "mc \<le> m" "mc \<le> hd qshape"
      by (simp_all add: mc_def qshape_def)
    have shQ4: "shape Q4 = [hd (tl qshape), mc]"
      unfolding Q4_def
      by (rule shape_Q_slice [where r = "hd qshape"])
         (simp_all add: shQ2 le, simp add: qshape_def)
    have shR2: "shape R2 = [mc, n]"
      unfolding R2_def by (rule shape_R_slice [OF sh le(1)])
    from ret have "Q = Q4\<lparr>data := p + 7\<rparr>" "R = R2\<lparr>data := p + 8, elems := triu_elems R2 0\<rparr>"
      unfolding eq by simp_all
    with shQ4 shR2 show ?thesis
      by (simp add: eq)
  qed
  show ?thesis
    using full by (auto simp: mc_def qshape_def)
qed

theorem Call_shapes_witness:
  "shape (A3x2 kFloat32) = [3, 2]
   \<and> (dtype (A3x2 kFloat32) = kFloat32 \<or> dtype (A3x2 kFloat32) = kFloat64)
   \<and> fst (Call (stub_env 0 0) (A3x2 kFloat32) QRMode_reduced dev0)
       = Inr (\<lparr>shape = [3, 2], dtype = kFloat32, data = 8,
               elems = [111, 112, 113, 114, 115, 116]\<rparr>,
              \<lparr>shape = [2, 2], dtype = kFloat32, data = 9, elems = [11, 12, 0, 14]\<rparr>)
   \<and> [3, 2] = [3, min 3 (2::nat)] \<and> [2, 2] = [min 3 2, (2::nat)]
   \<and> shape (A3x2 kFloat64) = [3, 2]
   \<and> (dtype (A3x2 kFloat64) = kFloat32 \<or> dtype (A3x2 kFloat64) = kFloat64)
   \<and> fst (Call (stub_env 0 0) (A3x2 kFloat64) QRMode_complete dev0)
       = Inr (\<lparr>shape = [3, 3], dtype = kFloat64, data = 8,
               elems = [111, 112, 177, 113, 114, 177, 115, 116, 177]\<rparr>,
              \<lparr>shape = [3, 2], dtype = kFloat64, data = 9, elems = [11, 12, 0, 14, 0, 0]\<rparr>)
   \<and> (2::nat) < 3
   \<and> shape (A2x2 kFloat32) = [2, 2]
   \<and> (dtype (A2x2 kFloat32) = kFloat32 \<or> dtype (A2x2 kFloat32) = kFloat64)
   \<and> fst (Call (stub_env 0 0) (A2x2 kFloat32) QRMode_complete dev0)
       = Inr (\<lparr>shape = [2, 2], dtype = kFloat32, data = 8, elems = [111, 112, 113, 114]\<rparr>,
              \<lparr>shape = [2, 2], dtype = kFloat32, data = 9, elems = [11, 12, 0, 14]\<rparr>)
   \<and> orgqr_dims (new_events dev0 (snd (Call (stub_env 0 0) (A2x2 kFloat32) QRMode_complete dev0)))
       = [(2, min 2 2, min 2 2)]"
proof -
  have dt: "dtype (A3x2 kFloat32) = kFloat32 \<or> dtype (A3x2 kFloat32) = kFloat64"
    "dtype (A3x2 kFloat64) = kFloat32 \<or> dtype (A3x2 kFloat64) = kFloat64"
    "dtype (A2x2 kFloat32) = kFloat32 \<or> dtype (A2x2 kFloat32) = kFloat64"
    by (simp_all add: concrete_inputs)
  have r1: "fst (Call (stub_env 0 0) (A3x2 kFloat32) QRMode_reduced dev0)
       = Inr (\<lparr>shape = [3, 2], dtype = kFloat32, data = 8,
               elems = [111, 112, 113, 114, 115, 116]\<rparr>,
              \<lparr>shape = [2, 2], dtype = kFloat32, data = 9, elems = [11, 12, 0, 14]\<rparr>)"
    by (simp add: run_reduced)
  have r2: "fst (Call (stub_env 0 0) (A3x2 kFloat64) QRMode_complete dev0)
       = Inr (\<lparr>shape = [3, 3], dtype = kFloat64, data = 8,
               elems = [111, 112, 177, 113, 114, 177, 115, 116, 177]\<rparr>,
              \<lparr>shape = [3, 2], dtype = kFloat64, data = 9, elems = [11, 12, 0, 14, 0, 0]\<rparr>)"
    by (simp add: run_complete)
  have r3: "fst (Call (stub_env 0 0) (A2x2 kFloat32) QRMode_complete dev0)
       = Inr (\<lparr>shape = [2, 2], dtype = kFloat32, data = 8, elems = [111, 112, 113, 114]\<rparr>,
              \<lparr>shape = [2, 2], dtype = kFloat32, data = 9, elems = [11, 12, 0, 14]\<rparr>)"
    by (simp add: run_square)
  show ?thesis
    using dt r1 r2 r3
      Call_shapes [OF concrete_inputs(1) dt(1) r1]
      Call_shapes [OF concrete_inputs(1) dt(2) r2]
      Call_shapes [OF concrete_inputs(3) dt(3) r3]
    by (simp add: concrete_inputs)
qed

subsection \<open>Upper-triangular \<open>R\<close>\<close>

text \<open>
  C5: for every valid input and every mode other than raw, the \<open>R\<close> that the call
  returns is exactly upper-triangular: every entry strictly below the main diagonal is
  zero, because \<open>Triu\<close> is applied to it on both return paths.
\<close>

theorem R_upper_triangular:
  assumes sh: "shape a = [m, n]" and dt: "dtype a = kFloat32 \<or> dtype a = kFloat64"
    and md: "mode \<noteq> QRMode_raw"
    and ret: "fst (Call env a mode s) = Inr (Q, R)"
  shows "upper_triangular R"
proof -
  define lib where "lib = (if dtype a = kFloat32 then cusolverDnS env else cusolverDnD env)"
  define p where "p = next_addr s"
  define W where "W = elems (Transpose a)"
  define S1 where "S1 = geqrf_bufferSize lib m n W n"
  define G where "G = geqrf lib m n W m (map (uninit env) [0..<min m n]) S1"
  have ok1: "snd (snd G) = 0"
    by (rule Call_Inr_geqrf_ok [OF sh dt lib_def W_def S1_def G_def ret])
  show ?thesis
  proof (cases "mode = QRMode_r")
    case True
    define R2 where "R2 = Transpose (At ((Transpose a)\<lparr>data := p + 1, elems := fst G\<rparr>)
                Slice_all (Slice 0 (min m n)))"
    note eq = Call_r [OF sh dt lib_def p_def W_def S1_def G_def ok1 R2_def]
    have "shape R2 = [min m n, n]"
      unfolding R2_def by (rule shape_R_slice [OF sh]) simp
    moreover have "R = R2\<lparr>data := p + 5, elems := triu_elems R2 0\<rparr>"
      using ret True by (simp add: eq)
    ultimately show ?thesis
      by (simp add: upper_triangular_triu)
  next
    case False
    with md have md': "mode = QRMode_reduced \<or> mode = QRMode_complete"
      by (cases mode) simp_all
    define mc where "mc = (if mode = QRMode_complete \<and> n < m then m else min m n)"
    define qshape where "qshape = (if mode = QRMode_complete \<and> n < m then [m, m] else [n, m])"
    define Q2 where "Q2 = CopyKernel_rows ((Transpose a)\<lparr>data := p + 1, elems := fst G\<rparr>)
                \<lparr>shape = qshape, dtype = dtype a, data = p + 5,
                  elems = map (uninit env) [0..<prod_list qshape]\<rparr> (Slice 0 n)"
    define S2 where "S2 = orgqr_bufferSize lib m mc (min m n) (elems Q2) m (fst (snd G))"
    define G2 where "G2 = orgqr lib m mc (min m n) (elems Q2) m (fst (snd G)) S2"
    define Q4 where "Q4 = Transpose (At (Q2\<lparr>elems := fst G2\<rparr>) (Slice 0 mc) Slice_all)"
    define R2 where "R2 = Transpose (At ((Transpose a)\<lparr>data := p + 1, elems := fst G\<rparr>)
                Slice_all (Slice 0 mc))"
    have ok2: "snd G2 = 0"
      by (rule Call_Inr_orgqr_ok [OF sh dt lib_def p_def W_def S1_def G_def ret md' mc_def
            qshape_def Q2_def S2_def G2_def])
    note eq = Call_full [OF sh dt lib_def p_def W_def S1_def G_def ok1 md' mc_def
            qshape_def Q2_def S2_def G2_def ok2 Q4_def R2_def]
    have "mc \<le> m"
      by (simp add: mc_def)
    then have "shape R2 = [mc, n]"
      unfolding R2_def by (rule shape_R_slice [OF sh])
    moreover have "R = R2\<lparr>data := p + 8, elems := triu_elems R2 0\<rparr>"
      using ret by (simp add: eq)
    ultimately show ?thesis
      by (simp add: upper_triangular_triu)
  qed
qed

theorem R_upper_triangular_witness:
  "shape (A3x2 kFloat64) = [3, 2]
   \<and> (dtype (A3x2 kFloat64) = kFloat32 \<or> dtype (A3x2 kFloat64) = kFloat64)
   \<and> QRMode_complete \<noteq> QRMode_raw
   \<and> fst (Call (stub_env 0 0) (A3x2 kFloat64) QRMode_complete dev0)
       = Inr (\<lparr>shape = [3, 3], dtype = kFloat64, data = 8,
               elems = [111, 112, 177, 113, 114, 177, 115, 116, 177]\<rparr>,
              \<lparr>shape = [3, 2], dtype = kFloat64, data = 9, elems = [11, 12, 0, 14, 0, 0]\<rparr>)
   \<and> upper_triangular
        \<lparr>shape = [3, 2], dtype = kFloat64, data = 9, elems = [11, 12, 0, 14, 0, 0 :: int]\<rparr>"
proof -
  have dt: "dtype (A3x2 kFloat64) = kFloat32 \<or> dtype (A3x2 kFloat64) = kFloat64"
    by (simp add: concrete_inputs)
  have md: "QRMode_complete \<noteq> QRMode_raw"
    by simp
  have ret: "fst (Call (stub_env 0 0) (A3x2 kFloat64) QRMode_complete dev0)
       = Inr (\<lparr>shape = [3, 3], dtype = kFloat64, data = 8,
               elems = [111, 112, 177, 113, 114, 177, 115, 116, 177]\<rparr>,
              \<lparr>shape = [3, 2], dtype = kFloat64, data = 9, elems = [11, 12, 0, 14, 0, 0]\<rparr>)"
    by (simp add: run_complete)
  show ?thesis
    using concrete_inputs(1) [of kFloat64] dt md ret
      R_upper_triangular [OF concrete_inputs(1) dt md ret]
    by blast
qed

subsection \<open>Mode \<open>r\<close> against mode \<open>reduced\<close>\<close>

text \<open>
  C6: for every valid 2-dimensional input, the reflector-accumulation primitive is not
  called in an \<open>r\<close>-mode call; and whenever the reduced-mode call on the same input,
  from the same device state, returns \<open>(Q, R)\<close>, the \<open>r\<close>-mode call returns the empty
  placeholder (shape \<open>(0)\<close>, no elements) as \<open>Q\<close> and an \<open>R\<close> with the same shape,
  element kind and elements: it is the reduced-mode \<open>R\<close> in another buffer.
\<close>

theorem r_mode_matches_reduced:
  assumes sh: "shape a = [m, n]" and dt: "dtype a = kFloat32 \<or> dtype a = kFloat64"
  shows "\<not> orgqr_invoked (new_events s (snd (Call env a QRMode_r s)))
       \<and> (fst (Call env a QRMode_reduced s) = Inr (Q, R) \<longrightarrow>
            fst (Call env a QRMode_r s)
              = Inr (\<lparr>shape = [0], dtype = dtype a, data = next_addr s, elems = []\<rparr>,
                     R\<lparr>data := next_addr s + 5\<rparr>))"
proof -
  define lib where "lib = (if dtype a = kFloat32 then cusolverDnS env else cusolverDnD env)"
  define p where "p = next_addr s"
  define W where "W = elems (Transpose a)"
  define S1 where "S1 = geqrf_bufferSize lib m n W n"
  define G where "G = geqrf lib m n W m (map (uninit env) [0..<min m n]) S1"
  define R2 where "R2 = Transpose (At ((Transpose a)\<lparr>data := p + 1, elems := fst G\<rparr>)
                Slice_all (Slice 0 (min m n)))"
  have no_orgqr: "\<not> orgqr_invoked (new_events s (snd (Call env a QRMode_r s)))"
  proof (cases "snd (snd G) = 0")
    case True
    show ?thesis
      by (simp add: Call_r [OF sh dt lib_def p_def W_def S1_def G_def True R2_def]
          orgqr_invoked_def)
  next
    case False
    show ?thesis
      by (simp add: Call_geqrf_fail [OF sh dt lib_def p_def W_def S1_def G_def False]
          orgqr_invoked_def)
  qed
  have same: "fst (Call env a QRMode_r s)
              = Inr (\<lparr>shape = [0], dtype = dtype a, data = next_addr s, elems = []\<rparr>,
                     R\<lparr>data := next_addr s + 5\<rparr>)"
    if ret: "fst (Call env a QRMode_reduced s) = Inr (Q, R)"
  proof -
    define mc where "mc = (if QRMode_reduced = QRMode_complete \<and> n < m then m else min m n)"
    define qshape
      where "qshape = (if QRMode_reduced = QRMode_complete \<and> n < m then [m, m] else [n, m])"
    define Q2 where "Q2 = CopyKernel_rows ((Transpose a)\<lparr>data := p + 1, elems := fst G\<rparr>)
                \<lparr>shape = qshape, dtype = dtype a, data = p + 5,
                  elems = map (uninit env) [0..<prod_list qshape]\<rparr> (Slice 0 n)"
    define S2 where "S2 = orgqr_bufferSize lib m mc (min m n) (elems Q2) m (fst (snd G))"
    define G2 where "G2 = orgqr lib m mc (min m n) (elems Q2) m (fst (snd G)) S2"
    define Q4 where "Q4 = Transpose (At (Q2\<lparr>elems := fst G2\<rparr>) (Slice 0 mc) Slice_all)"
    define R2' where "R2' = Transpose (At ((Transpose a)\<lparr>data := p + 1, elems := fst G\<rparr>)
                Slice_all (Slice 0 mc))"
    have md: "QRMode_reduced = QRMode_reduced \<or> QRMode_reduced = QRMode_complete"
      by simp
    have ok1: "snd (snd G) = 0"
      by (rule Call_Inr_geqrf_ok [OF sh dt lib_def W_def S1_def G_def ret])
    have ok2: "snd G2 = 0"
      by (rule Call_Inr_orgqr_ok [OF sh dt lib_def p_def W_def S1_def G_def ret md mc_def
            qshape_def Q2_def S2_def G2_def])
    note red = Call_full [OF sh dt lib_def p_def W_def S1_def G_def ok1 md mc_def
            qshape_def Q2_def S2_def G2_def ok2 Q4_def R2'_def]
    have "R2' = R2"
      by (simp add: R2'_def R2_def mc_def)
    with ret have R: "R = R2\<lparr>data := p + 8, elems := triu_elems R2 0\<rparr>"
      by (simp add: red)
    show ?thesis
      by (simp add: Call_r [OF sh dt lib_def p_def W_def S1_def G_def ok1 R2_def] R p_def)
  qed
  from no_orgqr same show ?thesis
    by blast
qed

theorem r_mode_matches_reduced_witness:
  "shape (A3x2 kFloat32) = [3, 2]
   \<and> (dtype (A3x2 kFloat32) = kFloat32 \<or> dtype (A3x2 kFloat32) = kFloat64)
   \<and> \<not> orgqr_invoked (new_events dev0 (snd (Call (stub_env 0 0) (A3x2 kFloat32) QRMode_r dev0)))
   \<and> fst (Call (stub_env 0 0) (A3x2 kFloat32) QRMode_reduced dev0)
       = Inr (\<lparr>shape = [3, 2], dtype = kFloat32, data = 8,
               elems = [111, 112, 113, 114, 115, 116]\<rparr>,
              \<lparr>shape = [2, 2], dtype = kFloat32, data = 9, elems = [11, 12, 0, 14]\<rparr>)
   \<and> fst (Call (stub_env 0 0) (A3x2 kFloat32) QRMode_r dev0)
       = Inr (\<lparr>shape = [0], dtype = kFloat32, data = 1, elems = []\<rparr>,
              \<lparr>shape = [2, 2], dtype = kFloat32, data = 6, elems = [11, 12, 0, 14]\<rparr>)"
proof -
  have dt: "dtype (A3x2 kFloat32) = kFloat32 \<or> dtype (A3x2 kFloat32) = kFloat64"
    by (simp add: concrete_inputs)
  have ret: "fst (Call (stub_env 0 0) (A3x2 kFloat32) QRMode_reduced dev0)
       = Inr (\<lparr>shape = [3, 2], dtype = kFloat32, data = 8,
               elems = [111, 112, 113, 114, 115, 116]\<rparr>,
              \<lparr>shape = [2, 2], dtype = kFloat32, data = 9, elems = [11, 12, 0, 14]\<rparr>)"
    by (simp add: run_reduced)
  show ?thesis
    using dt ret
      r_mode_matches_reduced [OF concrete_inputs(1) dt, where s = dev0 and env = "stub_env 0 0"
        and Q = "\<lparr>shape = [3, 2], dtype = kFloat32, data = 8,
                  elems = [111, 112, 113, 114, 115, 116]\<rparr>"
        and R = "\<lparr>shape = [2, 2], dtype = kFloat32, data = 9, elems = [11, 12, 0, 14]\<rparr>"]
    by (simp add: concrete_inputs dev0_def)
qed

subsection \<open>Raw mode and the placeholder\<close>

lemma working_buffer_record:
  "shape a = [m, n] \<Longrightarrow>
     (Transpose a)\<lparr>data := q, elems := es\<rparr>
       = \<lparr>shape = [n, m], dtype = dtype a, data = q, elems = es\<rparr>"
  by (cases a) (simp add: Transpose_def)

text \<open>
  C10: for every valid \<open>m \<times> n\<close> float32 or float64 input, a raw-mode call that returns
  gives first the working buffer: shape \<open>(n, m)\<close>, in the buffer allocated for the
  transposed copy of the input (the second allocation of the call), holding exactly what
  the generation primitive left there (\<open>Triu\<close> is not applied); and second \<open>tau\<close>, a
  1-dimensional array of length \<open>min m n\<close> holding what the primitive wrote. The \<open>Q\<close>
  returned by an \<open>r\<close>-mode call is the placeholder: 1-dimensional, of shape \<open>(0)\<close>.
\<close>

theorem raw_mode_and_placeholder:
  assumes sh: "shape a = [m, n]" and dt: "dtype a = kFloat32 \<or> dtype a = kFloat64"
    and lib: "lib = (if dtype a = kFloat32 then cusolverDnS env else cusolverDnD env)"
    and W: "W = elems (Transpose a)"
    and G: "G = geqrf lib m n W m (map (uninit env) [0..<min m n])
                  (geqrf_bufferSize lib m n W n)"
  shows "(fst (Call env a QRMode_raw s) = Inr (X, T) \<longrightarrow>
            X = \<lparr>shape = [n, m], dtype = dtype a, data = next_addr s + 1, elems = fst G\<rparr>
            \<and> T = \<lparr>shape = [min m n], dtype = dtype a, data = next_addr s + 2,
                    elems = fst (snd G)\<rparr>
            \<and> take 3 (new_events s (snd (Call env a QRMode_raw s)))
                = [Alloc (next_addr s) 0, Alloc (next_addr s + 1) (n * m),
                   Alloc (next_addr s + 2) (min m n)])
       \<and> (fst (Call env a QRMode_r s) = Inr (Q, R) \<longrightarrow>
            Q = \<lparr>shape = [0], dtype = dtype a, data = next_addr s, elems = []\<rparr>)"
proof -
  have raw: "X = \<lparr>shape = [n, m], dtype = dtype a, data = next_addr s + 1, elems = fst G\<rparr>
            \<and> T = \<lparr>shape = [min m n], dtype = dtype a, data = next_addr s + 2,
                    elems = fst (snd G)\<rparr>
            \<and> take 3 (new_events s (snd (Call env a QRMode_raw s)))
                = [Alloc (next_addr s) 0, Alloc (next_addr s + 1) (n * m),
                   Alloc (next_addr s + 2) (min m n)]"
    if ret: "fst (Call env a QRMode_raw s) = Inr (X, T)"
  proof -
    have ok1: "snd (snd G) = 0"
      by (rule Call_Inr_geqrf_ok [OF sh dt lib W refl G ret])
    note eq = Call_raw [OF sh dt lib refl W refl G ok1]
    from ret show ?thesis
      by (simp add: eq working_buffer_record [OF sh])
  qed
  have r: "Q = \<lparr>shape = [0], dtype = dtype a, data = next_addr s, elems = []\<rparr>"
    if ret: "fst (Call env a QRMode_r s) = Inr (Q, R)"
  proof -
    have ok1: "snd (snd G) = 0"
      by (rule Call_Inr_geqrf_ok [OF sh dt lib W refl G ret])
    note eq = Call_r [OF sh dt lib refl W refl G ok1 refl]
    from ret show ?thesis
      by (simp add: eq)
  qed
  from raw r show ?thesis
    by blast
qed

theorem raw_mode_and_placeholder_witness:
  "shape (A3x2 kFloat64) = [3, 2]
   \<and> (dtype (A3x2 kFloat64) = kFloat32 \<or> dtype (A3x2 kFloat64) = kFloat64)
   \<and> fst (Call (stub_env 0 0) (A3x2 kFloat64) QRMode_raw dev0)
       = Inr (\<lparr>shape = [2, 3], dtype = kFloat64, data = 2, elems = [11, 13, 15, 12, 14, 16]\<rparr>,
              \<lparr>shape = [2], dtype = kFloat64, data = 3, elems = [2, 2]\<rparr>)
   \<and> fst (geqrf (stub_lib 0 0) 3 2 [1, 3, 5, 2, 4, 6] 3 [77, 77] 4) = [11, 13, 15, 12, 14, 16]
   \<and> fst (snd (geqrf (stub_lib 0 0) 3 2 [1, 3, 5, 2, 4, 6] 3 [77, 77] 4)) = [2, 2]
   \<and> take 3 (new_events dev0 (snd (Call (stub_env 0 0) (A3x2 kFloat64) QRMode_raw dev0)))
       = [Alloc 1 0, Alloc 2 6, Alloc 3 2]
   \<and> fst (Call (stub_env 0 0) (A3x2 kFloat64) QRMode_r dev0)
       = Inr (\<lparr>shape = [0], dtype = kFloat64, data = 1, elems = []\<rparr>,
              \<lparr>shape = [2, 2], dtype = kFloat64, data = 6, elems = [11, 12, 0, 14]\<rparr>)"
proof -
  have dt: "dtype (A3x2 kFloat64) = kFloat32 \<or> dtype (A3x2 kFloat64) = kFloat64"
    by (simp add: concrete_inputs)
  have raw: "fst (Call (stub_env 0 0) (A3x2 kFloat64) QRMode_raw dev0)
       = Inr (\<lparr>shape = [2, 3], dtype = kFloat64, data = 2, elems = [11, 13, 15, 12, 14, 16]\<rparr>,
              \<lparr>shape = [2], dtype = kFloat64, data = 3, elems = [2, 2]\<rparr>)"
    by (simp add: run_raw)
  have r: "fst (Call (stub_env 0 0) (A3x2 kFloat64) QRMode_r dev0)
       = Inr (\<lparr>shape = [0], dtype = kFloat64, data = 1, elems = []\<rparr>,
              \<lparr>shape = [2, 2], dtype = kFloat64, data = 6, elems = [11, 12, 0, 14]\<rparr>)"
    apply (subst Call_r [OF concrete_inputs(1) _ stub_lib_dispatch concrete_inputs(5)
          refl refl refl _ refl])
      apply (simp_all add: concrete_inputs)
    apply (simp add: eval_arrays)
    done
  have lib: "stub_lib 0 0 = (if dtype (A3x2 kFloat64) = kFloat32 then cusolverDnS (stub_env 0 0)
                             else cusolverDnD (stub_env 0 0))"
    by simp
  show ?thesis
    using dt raw r
      raw_mode_and_placeholder [OF concrete_inputs(1) dt lib refl refl,
        where s = dev0
        and X = "\<lparr>shape = [2, 3], dtype = kFloat64, data = 2, elems = [11, 13, 15, 12, 14, 16]\<rparr>"
        and T = "\<lparr>shape = [2], dtype = kFloat64, data = 3, elems = [2, 2]\<rparr>"
        and Q = "\<lparr>shape = [0], dtype = kFloat64, data = 1, elems = []\<rparr>"
        and R = "\<lparr>shape = [2, 2], dtype = kFloat64, data = 6, elems = [11, 12, 0, 14]\<rparr>"]
    by (simp add: concrete_inputs eval_arrays)
qed

subsection \<open>The status check after each stage\<close>

text \<open>
  C4: on every valid input, each vendor execute call of the trace is followed at once
  by a copy of its status cell to the host, and there is at least one such read. If the
  first value read (after the reflector-generation stage) is nonzero, the call raises
  \<open>ChainerxError\<close> with the geqrf message and that value, and the accumulation
  primitive is not called. If the accumulation primitive is called, there are exactly
  two reads, and if the second value is nonzero the call raises \<open>ChainerxError\<close> with
  the orgqr message and that value.
\<close>

theorem status_checked_after_each_stage:
  assumes sh: "shape a = [m, n]" and dt: "dtype a = kFloat32 \<or> dtype a = kFloat64"
    and res: "res = fst (Call env a mode s)"
    and tr: "tr = new_events s (snd (Call env a mode s))"
  shows "readback_after_each_call tr
       \<and> status_reads tr \<noteq> []
       \<and> (hd (status_reads tr) \<noteq> 0 \<longrightarrow>
            res = Inl (ChainerxError ''Unsuccessfull geqrf (QR) execution. Info = ''
                        (hd (status_reads tr)))
            \<and> \<not> orgqr_invoked tr)
       \<and> (orgqr_invoked tr \<longrightarrow>
            length (status_reads tr) = 2
            \<and> (status_reads tr ! 1 \<noteq> 0 \<longrightarrow>
                 res = Inl (ChainerxError ''Unsuccessfull orgqr (QR) execution. Info = ''
                             (status_reads tr ! 1))))"
proof -
  define lib where "lib = (if dtype a = kFloat32 then cusolverDnS env else cusolverDnD env)"
  define p where "p = next_addr s"
  define W where "W = elems (Transpose a)"
  define S1 where "S1 = geqrf_bufferSize lib m n W n"
  define G where "G = geqrf lib m n W m (map (uninit env) [0..<min m n]) S1"
  show ?thesis
  proof (cases "snd (snd G) = 0")
    case False
    note eq = Call_geqrf_fail [OF sh dt lib_def p_def W_def S1_def G_def False]
    from False show ?thesis
      unfolding res tr by (simp add: eq orgqr_invoked_def)
  next
    case ok1: True
    have stage4: ?thesis if md: "mode = QRMode_reduced \<or> mode = QRMode_complete"
    proof -
      define mc where "mc = (if mode = QRMode_complete \<and> n < m then m else min m n)"
      define qshape
        where "qshape = (if mode = QRMode_complete \<and> n < m then [m, m] else [n, m])"
      define Q2 where "Q2 = CopyKernel_rows ((Transpose a)\<lparr>data := p + 1, elems := fst G\<rparr>)
                \<lparr>shape = qshape, dtype = dtype a, data = p + 5,
                  elems = map (uninit env) [0..<prod_list qshape]\<rparr> (Slice 0 n)"
      define S2 where "S2 = orgqr_bufferSize lib m mc (min m n) (elems Q2) m (fst (snd G))"
      define G2 where "G2 = orgqr lib m mc (min m n) (elems Q2) m (fst (snd G)) S2"
      show ?thesis
      proof (cases "snd G2 = 0")
        case True
        note eq = Call_full [OF sh dt lib_def p_def W_def S1_def G_def ok1 md mc_def
            qshape_def Q2_def S2_def G2_def True refl refl]
        show ?thesis
          unfolding res tr by (simp add: eq orgqr_invoked_def)
      next
        case False
        note eq = Call_orgqr_fail [OF sh dt lib_def p_def W_def S1_def G_def ok1 md mc_def
            qshape_def Q2_def S2_def G2_def False]
        from False show ?thesis
          unfolding res tr by (simp add: eq orgqr_invoked_def)
      qed
    qed
    show ?thesis
    proof (cases mode)
      case QRMode_r
      note eq = Call_r [OF sh dt lib_def p_def W_def S1_def G_def ok1 refl]
      show ?thesis
        unfolding res tr QRMode_r by (simp add: eq orgqr_invoked_def)
    next
      case QRMode_raw
      note eq = Call_raw [OF sh dt lib_def p_def W_def S1_def G_def ok1]
      show ?thesis
        unfolding res tr QRMode_raw by (simp add: eq orgqr_invoked_def)
    next
      case QRMode_reduced
      then show ?thesis
        by (intro stage4) simp
    next
      case QRMode_complete
      then show ?thesis
        by (intro stage4) simp
    qed
  qed
qed

theorem status_checked_after_each_stage_witness:
  "shape (A3x2 kFloat32) = [3, 2]
   \<and> (dtype (A3x2 kFloat32) = kFloat32 \<or> dtype (A3x2 kFloat32) = kFloat64)
   \<and> readback_after_each_call
        (new_events dev0 (snd (Call (stub_env 3 0) (A3x2 kFloat32) QRMode_reduced dev0)))
   \<and> status_reads (new_events dev0 (snd (Call (stub_env 3 0) (A3x2 kFloat32) QRMode_reduced dev0)))
       = [3]
   \<and> fst (Call (stub_env 3 0) (A3x2 kFloat32) QRMode_reduced dev0)
       = Inl (ChainerxError ''Unsuccessfull geqrf (QR) execution. Info = '' 3)
   \<and> \<not> orgqr_invoked
         (new_events dev0 (snd (Call (stub_env 3 0) (A3x2 kFloat32) QRMode_reduced dev0)))
   \<and> shape (A3x2 kFloat64) = [3, 2]
   \<and> (dtype (A3x2 kFloat64) = kFloat32 \<or> dtype (A3x2 kFloat64) = kFloat64)
   \<and> readback_after_each_call
        (new_events dev0 (snd (Call (stub_env 0 (- 2)) (A3x2 kFloat64) QRMode_complete dev0)))
   \<and> orgqr_invoked
        (new_events dev0 (snd (Call (stub_env 0 (- 2)) (A3x2 kFloat64) QRMode_complete dev0)))
   \<and> status_reads
        (new_events dev0 (snd (Call (stub_env 0 (- 2)) (A3x2 kFloat64) QRMode_complete dev0)))
       = [0, - 2]
   \<and> fst (Call (stub_env 0 (- 2)) (A3x2 kFloat64) QRMode_complete dev0)
       = Inl (ChainerxError ''Unsuccessfull orgqr (QR) execution. Info = '' (- 2))"
proof -
  have dt: "dtype (A3x2 kFloat32) = kFloat32 \<or> dtype (A3x2 kFloat32) = kFloat64"
    "dtype (A3x2 kFloat64) = kFloat32 \<or> dtype (A3x2 kFloat64) = kFloat64"
    by (simp_all add: concrete_inputs)
  show ?thesis
    using dt
      status_checked_after_each_stage [OF concrete_inputs(1) dt(1) refl refl,
        where env = "stub_env 3 0" and mode = QRMode_reduced and s = dev0]
      status_checked_after_each_stage [OF concrete_inputs(1) dt(2) refl refl,
        where env = "stub_env 0 (- 2)" and mode = QRMode_complete and s = dev0]
    by (simp add: concrete_inputs run_geqrf_fail run_orgqr_fail new_events_def dev0_simps
        orgqr_invoked_def)
qed

subsection \<open>The status cell is never given back\<close>

lemma status_cell_live_at_every_exit:
  assumes sh: "shape a = [m, n]" and dt: "dtype a = kFloat32 \<or> dtype a = kFloat64"
    and s': "s' = snd (Call env a mode s)"
  shows "Alloc (next_addr s + 3) 1 \<in> set (new_events s s')
       \<and> Release (next_addr s + 3) \<notin> set (new_events s s')
       \<and> next_addr s + 3 \<in> set (live s')"
proof -
  define lib where "lib = (if dtype a = kFloat32 then cusolverDnS env else cusolverDnD env)"
  define p where "p = next_addr s"
  define W where "W = elems (Transpose a)"
  define S1 where "S1 = geqrf_bufferSize lib m n W n"
  define G where "G = geqrf lib m n W m (map (uninit env) [0..<min m n]) S1"
  show ?thesis
  proof (cases "snd (snd G) = 0")
    case False
    note eq = Call_geqrf_fail [OF sh dt lib_def p_def W_def S1_def G_def False]
    show ?thesis
      unfolding s' by (simp add: eq p_def)
  next
    case ok1: True
    have stage4: ?thesis if md: "mode = QRMode_reduced \<or> mode = QRMode_complete"
    proof -
      define mc where "mc = (if mode = QRMode_complete \<and> n < m then m else min m n)"
      define qshape
        where "qshape = (if mode = QRMode_complete \<and> n < m then [m, m] else [n, m])"
      define Q2 where "Q2 = CopyKernel_rows ((Transpose a)\<lparr>data := p + 1, elems := fst G\<rparr>)
                \<lparr>shape = qshape, dtype = dtype a, data = p + 5,
                  elems = map (uninit env) [0..<prod_list qshape]\<rparr> (Slice 0 n)"
      define S2 where "S2 = orgqr_bufferSize lib m mc (min m n) (elems Q2) m (fst (snd G))"
      define G2 where "G2 = orgqr lib m mc (min m n) (elems Q2) m (fst (snd G)) S2"
      show ?thesis
      proof (cases "snd G2 = 0")
        case True
        note eq = Call_full [OF sh dt lib_def p_def W_def S1_def G_def ok1 md mc_def
            qshape_def Q2_def S2_def G2_def True refl refl]
        show ?thesis
          unfolding s' by (simp add: eq p_def)
      next
        case False
        note eq = Call_orgqr_fail [OF sh dt lib_def p_def W_def S1_def G_def ok1 md mc_def
            qshape_def Q2_def S2_def G2_def False]
        show ?thesis
          unfolding s' by (simp add: eq p_def)
      qed
    qed
    show ?thesis
    proof (cases mode)
      case QRMode_r
      note eq = Call_r [OF sh dt lib_def p_def W_def S1_def G_def ok1 refl]
      show ?thesis
        unfolding s' QRMode_r by (simp add: eq p_def)
    next
      case QRMode_raw
      note eq = Call_raw [OF sh dt lib_def p_def W_def S1_def G_def ok1]
      show ?thesis
        unfolding s' QRMode_raw by (simp add: eq p_def)
    next
      case QRMode_reduced
      then show ?thesis
        by (intro stage4) simp
    next
      case QRMode_complete
      then show ?thesis
        by (intro stage4) simp
    qed
  qed
qed

text \<open>
  C1 asks that the status cell be released on every exit of a call on a valid input.
  The source allocates it with \<open>cudaMalloc\<close> (line 66) and has no \<open>cudaFree\<close>: on the
  3-by-2 input of the spec's scenario the status cell is the buffer at address 4, and
  it is still held by the device, with no release in the trace, after the raw-mode
  return, the \<open>r\<close>-mode return, the reduced and complete returns and both
  decomposition failures. What the device holds at each exit is the input (address 0),
  the two arrays returned, if any, and the status cell.
\<close>

theorem status_cell_not_released:
  "status_cells (trace (snd (Call (stub_env 0 0) (A3x2 kFloat64) QRMode_raw dev0))) = [4]
   \<and> live (snd (Call (stub_env 0 0) (A3x2 kFloat64) QRMode_raw dev0)) = [0, 2, 3, 4]
   \<and> \<not> released_at_exit 4 (snd (Call (stub_env 0 0) (A3x2 kFloat64) QRMode_raw dev0))
   \<and> status_cells (trace (snd (Call (stub_env 0 0) (A3x2 kFloat32) QRMode_r dev0))) = [4]
   \<and> live (snd (Call (stub_env 0 0) (A3x2 kFloat32) QRMode_r dev0)) = [0, 1, 4, 6]
   \<and> \<not> released_at_exit 4 (snd (Call (stub_env 0 0) (A3x2 kFloat32) QRMode_r dev0))
   \<and> status_cells (trace (snd (Call (stub_env 0 0) (A3x2 kFloat32) QRMode_reduced dev0))) = [4, 4]
   \<and> live (snd (Call (stub_env 0 0) (A3x2 kFloat32) QRMode_reduced dev0)) = [0, 4, 8, 9]
   \<and> \<not> released_at_exit 4 (snd (Call (stub_env 0 0) (A3x2 kFloat32) QRMode_reduced dev0))
   \<and> status_cells (trace (snd (Call (stub_env 0 0) (A3x2 kFloat64) QRMode_complete dev0))) = [4, 4]
   \<and> live (snd (Call (stub_env 0 0) (A3x2 kFloat64) QRMode_complete dev0)) = [0, 4, 8, 9]
   \<and> \<not> released_at_exit 4 (snd (Call (stub_env 0 0) (A3x2 kFloat64) QRMode_complete dev0))
   \<and> status_cells (trace (snd (Call (stub_env 3 0) (A3x2 kFloat32) QRMode_reduced dev0))) = [4]
   \<and> live (snd (Call (stub_env 3 0) (A3x2 kFloat32) QRMode_reduced dev0)) = [0, 4]
   \<and> \<not> released_at_exit 4 (snd (Call (stub_env 3 0) (A3x2 kFloat32) QRMode_reduced dev0))
   \<and> status_cells (trace (snd (Call (stub_env 0 (- 2)) (A3x2 kFloat64) QRMode_complete dev0)))
       = [4, 4]
   \<and> live (snd (Call (stub_env 0 (- 2)) (A3x2 kFloat64) QRMode_complete dev0)) = [0, 4]
   \<and> \<not> released_at_exit 4 (snd (Call (stub_env 0 (- 2)) (A3x2 kFloat64) QRMode_complete dev0))"
  by (simp add: run_raw run_r run_reduced run_complete run_geqrf_fail run_orgqr_fail
      status_cells_def released_at_exit_def List.map_filter_simps)

subsection \<open>The scratch pointer of the accumulation stage\<close>

lemma orgqr_scratch_is_stage2_scratch:
  assumes sh: "shape a = [m, n]" and dt: "dtype a = kFloat32 \<or> dtype a = kFloat64"
    and tr: "tr = new_events s (snd (Call env a mode s))"
    and run: "orgqr_invoked tr"
  shows "\<exists>S1 S2 tr1 tr2 tr3.
           geqrf_scratch tr = [(next_addr s + 4, S1)]
         \<and> orgqr_scratch tr = [(next_addr s + 4, S2)]
         \<and> tr = tr1 @ [Alloc (next_addr s + 6) S2, Release (next_addr s + 4)] @ tr2
         \<and> orgqr_scratch tr1 = [] \<and> orgqr_scratch tr2 = [(next_addr s + 4, S2)]"
proof -
  define lib where "lib = (if dtype a = kFloat32 then cusolverDnS env else cusolverDnD env)"
  define p where "p = next_addr s"
  define W where "W = elems (Transpose a)"
  define S1 where "S1 = geqrf_bufferSize lib m n W n"
  define G where "G = geqrf lib m n W m (map (uninit env) [0..<min m n]) S1"
  show ?thesis
  proof (cases "snd (snd G) = 0")
    case False
    note eq = Call_geqrf_fail [OF sh dt lib_def p_def W_def S1_def G_def False]
    from run show ?thesis
      unfolding tr by (simp add: eq orgqr_invoked_def)
  next
    case ok1: True
    have stage4: ?thesis if md: "mode = QRMode_reduced \<or> mode = QRMode_complete"
    proof -
      define mc where "mc = (if mode = QRMode_complete \<and> n < m then m else min m n)"
      define qshape
        where "qshape = (if mode = QRMode_complete \<and> n < m then [m, m] else [n, m])"
      define Q2 where "Q2 = CopyKernel_rows ((Transpose a)\<lparr>data := p + 1, elems := fst G\<rparr>)
                \<lparr>shape = qshape, dtype = dtype a, data = p + 5,
                  elems = map (uninit env) [0..<prod_list qshape]\<rparr> (Slice 0 n)"
      define S2 where "S2 = orgqr_bufferSize lib m mc (min m n) (elems Q2) m (fst (snd G))"
      define G2 where "G2 = orgqr lib m mc (min m n) (elems Q2) m (fst (snd G)) S2"
      let ?tr1 = "[Alloc p 0, Alloc (p + 1) (n * m), Alloc (p + 2) (min m n),
           Alloc (p + 3) 1,
           Call_geqrf_bufferSize m n (p + 1) n,
           Alloc (p + 4) S1,
           Call_geqrf m n (p + 1) m (p + 2) (p + 4) S1 (p + 3),
           MemcpyDeviceToHost (p + 3) 0,
           Alloc (p + 5) (prod_list qshape),
           Release p,
           Call_orgqr_bufferSize m mc (min m n) (p + 5) m (p + 2)]"
      show ?thesis
      proof (cases "snd G2 = 0")
        case True
        note eq = Call_full [OF sh dt lib_def p_def W_def S1_def G_def ok1 md mc_def
            qshape_def Q2_def S2_def G2_def True refl refl]
        show ?thesis
          unfolding tr
          apply (rule exI [of _ S1], rule exI [of _ S2], rule exI [of _ ?tr1])
          apply (simp add: eq p_def [symmetric])
          done
      next
        case False
        note eq = Call_orgqr_fail [OF sh dt lib_def p_def W_def S1_def G_def ok1 md mc_def
            qshape_def Q2_def S2_def G2_def False]
        show ?thesis
          unfolding tr
          apply (rule exI [of _ S1], rule exI [of _ S2], rule exI [of _ ?tr1])
          apply (simp add: eq p_def [symmetric])
          done
      qed
    qed
    show ?thesis
    proof (cases mode)
      case QRMode_r
      note eq = Call_r [OF sh dt lib_def p_def W_def S1_def G_def ok1 refl]
      from run show ?thesis
        unfolding tr QRMode_r by (simp add: eq orgqr_invoked_def)
    next
      case QRMode_raw
      note eq = Call_raw [OF sh dt lib_def p_def W_def S1_def G_def ok1]
      from run show ?thesis
        unfolding tr QRMode_raw by (simp add: eq orgqr_invoked_def)
    next
      case QRMode_reduced
      then show ?thesis
        by (intro stage4) simp
    next
      case QRMode_complete
      then show ?thesis
        by (intro stage4) simp
    qed
  qed
qed

text \<open>
  C3 asks that the accumulation primitive be handed the scratch buffer freshly allocated
  with the queried size \<open>S2\<close>. On the 3-by-2 input of the spec's scenario, in reduced
  mode, the size query is made with \<open>(m, mc, k) = (3, 2, 2)\<close> and answers 6, a fresh
  buffer of 6 elements is allocated at address 7, and the stage-2 scratch (address 5,
  4 elements) is released; the accumulation primitive is then called with scratch
  pointer 5, the released stage-2 buffer, and scratch size 6. The buffer at address 7
  is handed to no primitive. Complete mode does the same with \<open>(3, 3, 2)\<close> and size 9.
\<close>

theorem orgqr_gets_released_stage2_scratch:
  "new_events dev0 (snd (Call (stub_env 0 0) (A3x2 kFloat32) QRMode_reduced dev0))
     = [Alloc 1 0, Alloc 2 6, Alloc 3 2, Alloc 4 1,
        Call_geqrf_bufferSize 3 2 2 2, Alloc 5 4,
        Call_geqrf 3 2 2 3 3 5 4 4, MemcpyDeviceToHost 4 0, Alloc 6 6,
        Release 1, Call_orgqr_bufferSize 3 2 2 6 3 3, Alloc 7 6, Release 5,
        Call_orgqr 3 2 2 6 3 3 5 6 4, MemcpyDeviceToHost 4 0, Alloc 8 6,
        Release 6, Alloc 9 4, Release 2, Release 7, Release 3]
   \<and> geqrf_scratch (new_events dev0 (snd (Call (stub_env 0 0) (A3x2 kFloat32) QRMode_reduced dev0)))
       = [(5, 4)]
   \<and> orgqr_scratch (new_events dev0 (snd (Call (stub_env 0 0) (A3x2 kFloat32) QRMode_reduced dev0)))
       = [(5, 6)]
   \<and> geqrf_scratch (new_events dev0 (snd (Call (stub_env 0 0) (A3x2 kFloat64) QRMode_complete dev0)))
       = [(5, 4)]
   \<and> orgqr_scratch (new_events dev0 (snd (Call (stub_env 0 0) (A3x2 kFloat64) QRMode_complete dev0)))
       = [(5, 9)]"
  by (simp add: run_reduced run_complete new_events_def dev0_simps)

end
